theory Spec2Isabelle
  imports Complex_Main "HOL-Library.Sublist"
begin

section \<open>JSON values and JavaScript objects\<close>

text \<open>
  The registry entries, the request bodies and the response bodies of the program are
  JavaScript object literals. They are embedded as JSON values; an object is the list of
  its properties in source order. Numbers are rationals: the program only stores and
  compares them (\<open>0.4\<close>, \<open>8192\<close>) and adds string lengths.
\<close>

datatype json =
    JNull
  | JBool bool
  | JNum rat
  | JStr string
  | JArr "json list"
  | JObj "(string \<times> json) list"

type_synonym js_object = "(string \<times> json) list"

text \<open>
  Property access \<open>obj.k\<close>: \<open>None\<close> is JavaScript's \<open>undefined\<close>. No object literal of
  the program repeats a key, so the first match is the property.
\<close>

fun field :: "js_object \<Rightarrow> string \<Rightarrow> json option" where
  "field [] k = None"
| "field ((k', v) # kvs) k = (if k = k' then Some v else field kvs k)"

section \<open>The model registry: \<open>bedrock_models\<close> of bedrock-models.js\<close>

text \<open>
  The exported array, entry by entry and property by property, in source order. The
  commented-out \<open>modelId\<close> lines of the Llama 3.2 entries are comments in the source
  too and define nothing.
\<close>

definition bedrock_models :: "js_object list" where
  "bedrock_models = [
    [(''modelName'', JStr ''Claude-3-7-Sonnet''),
     (''modelId'', JStr ''arn:aws:bedrock:us-east-1:009160038668:inference-profile/us.anthropic.claude-sonnet-4-20250514-v1:0''),
     (''messages_api'', JBool True),
     (''system_as_separate_field'', JBool True),
     (''display_role_names'', JBool True),
     (''max_tokens_param_name'', JStr ''max_tokens''),
     (''max_supported_response_tokens'', JNum 8192),
     (''response_chunk_element'', JStr ''delta.text''),
     (''response_nonchunk_element'', JStr ''content[0].text''),
     (''special_request_schema'', JObj [(''anthropic_version'', JStr ''bedrock-2023-05-31'')])],
    [(''modelName'', JStr ''Claude-3-5-Sonnet-v2''),
     (''modelId'', JStr ''arn:aws:bedrock:us-east-1:009160038668:inference-profile/us.anthropic.claude-3-5-sonnet-20241022-v2:0''),
     (''messages_api'', JBool True),
     (''system_as_separate_field'', JBool True),
     (''display_role_names'', JBool True),
     (''max_tokens_param_name'', JStr ''max_tokens''),
     (''max_supported_response_tokens'', JNum 8192),
     (''response_chunk_element'', JStr ''delta.text''),
     (''response_nonchunk_element'', JStr ''content[0].text''),
     (''special_request_schema'', JObj [(''anthropic_version'', JStr ''bedrock-2023-05-31'')])],
    [(''modelName'', JStr ''Claude-3-5-Sonnet''),
     (''modelId'', JStr ''anthropic.claude-3-5-sonnet-20240620-v1:0''),
     (''messages_api'', JBool True),
     (''system_as_separate_field'', JBool True),
     (''display_role_names'', JBool True),
     (''max_tokens_param_name'', JStr ''max_tokens''),
     (''max_supported_response_tokens'', JNum 8192),
     (''response_chunk_element'', JStr ''delta.text''),
     (''response_nonchunk_element'', JStr ''content[0].text''),
     (''special_request_schema'', JObj [(''anthropic_version'', JStr ''bedrock-2023-05-31'')])],
    [(''modelName'', JStr ''Claude-3-Haiku''),
     (''modelId'', JStr ''anthropic.claude-3-haiku-20240307-v1:0''),
     (''messages_api'', JBool True),
     (''system_as_separate_field'', JBool True),
     (''display_role_names'', JBool True),
     (''max_tokens_param_name'', JStr ''max_tokens''),
     (''max_supported_response_tokens'', JNum 8192),
     (''response_chunk_element'', JStr ''delta.text''),
     (''response_nonchunk_element'', JStr ''content[0].text''),
     (''special_request_schema'', JObj [(''anthropic_version'', JStr ''bedrock-2023-05-31'')])],
    [(''modelName'', JStr ''Claude-3-5-Haiku''),
     (''modelId'', JStr ''arn:aws:bedrock:us-east-1:009160038668:inference-profile/us.anthropic.claude-3-5-haiku-20241022-v1:0''),
     (''messages_api'', JBool True),
     (''system_as_separate_field'', JBool True),
     (''display_role_names'', JBool True),
     (''max_tokens_param_name'', JStr ''max_tokens''),
     (''max_supported_response_tokens'', JNum 8192),
     (''response_chunk_element'', JStr ''delta.text''),
     (''response_nonchunk_element'', JStr ''content[0].text''),
     (''special_request_schema'', JObj [(''anthropic_version'', JStr ''bedrock-2023-05-31'')])],
    [(''modelName'', JStr ''Llama-3-2-1b''),
     (''modelId'', JStr ''us.meta.llama3-2-1b-instruct-v1:0''),
     (''messages_api'', JBool False),
     (''bos_text'', JStr ''<|begin_of_text|>''),
     (''role_system_message_prefix'', JStr ''''),
     (''role_system_message_suffix'', JStr ''''),
     (''role_system_prefix'', JStr ''<|start_header_id|>''),
     (''role_system_suffix'', JStr ''<|end_header_id|>''),
     (''role_user_message_prefix'', JStr ''''),
     (''role_user_message_suffix'', JStr ''''),
     (''role_user_prefix'', JStr ''<|start_header_id|>''),
     (''role_user_suffix'', JStr ''<|end_header_id|>''),
     (''role_assistant_message_prefix'', JStr ''''),
     (''role_assistant_message_suffix'', JStr ''''),
     (''role_assistant_prefix'', JStr ''<|start_header_id|>''),
     (''role_assistant_suffix'', JStr ''<|end_header_id|>''),
     (''eom_text'', JStr ''<|eot_id|>''),
     (''display_role_names'', JBool True),
     (''max_tokens_param_name'', JStr ''max_gen_len''),
     (''max_supported_response_tokens'', JNum 2048),
     (''response_chunk_element'', JStr ''generation'')],
    [(''modelName'', JStr ''Llama-3-2-3b''),
     (''modelId'', JStr ''us.meta.llama3-2-3b-instruct-v1:0''),
     (''messages_api'', JBool False),
     (''bos_text'', JStr ''<|begin_of_text|>''),
     (''role_system_message_prefix'', JStr ''''),
     (''role_system_message_suffix'', JStr ''''),
     (''role_system_prefix'', JStr ''<|start_header_id|>''),
     (''role_system_suffix'', JStr ''<|end_header_id|>''),
     (''role_user_message_prefix'', JStr ''''),
     (''role_user_message_suffix'', JStr ''''),
     (''role_user_prefix'', JStr ''<|start_header_id|>''),
     (''role_user_suffix'', JStr ''<|end_header_id|>''),
     (''role_assistant_message_prefix'', JStr ''''),
     (''role_assistant_message_suffix'', JStr ''''),
     (''role_assistant_prefix'', JStr ''<|start_header_id|>''),
     (''role_assistant_suffix'', JStr ''<|end_header_id|>''),
     (''eom_text'', JStr ''<|eot_id|>''),
     (''display_role_names'', JBool True),
     (''max_tokens_param_name'', JStr ''max_gen_len''),
     (''max_supported_response_tokens'', JNum 2048),
     (''response_chunk_element'', JStr ''generation'')],
    [(''modelName'', JStr ''Llama-3-2-11b''),
     (''modelId'', JStr ''us.meta.llama3-2-11b-instruct-v1:0''),
     (''messages_api'', JBool False),
     (''bos_text'', JStr ''<|begin_of_text|>''),
     (''role_system_message_prefix'', JStr ''''),
     (''role_system_message_suffix'', JStr ''''),
     (''role_system_prefix'', JStr ''<|start_header_id|>''),
     (''role_system_suffix'', JStr ''<|end_header_id|>''),
     (''role_user_message_prefix'', JStr ''''),
     (''role_user_message_suffix'', JStr ''''),
     (''role_user_prefix'', JStr ''<|start_header_id|>''),
     (''role_user_suffix'', JStr ''<|end_header_id|>''),
     (''role_assistant_message_prefix'', JStr ''''),
     (''role_assistant_message_suffix'', JStr ''''),
     (''role_assistant_prefix'', JStr ''<|start_header_id|>''),
     (''role_assistant_suffix'', JStr ''<|end_header_id|>''),
     (''eom_text'', JStr ''<|eot_id|>''),
     (''display_role_names'', JBool True),
     (''max_tokens_param_name'', JStr ''max_gen_len''),
     (''max_supported_response_tokens'', JNum 2048),
     (''response_chunk_element'', JStr ''generation'')],
    [(''modelName'', JStr ''Llama-3-2-90b''),
     (''modelId'', JStr ''us.meta.llama3-2-90b-instruct-v1:0''),
     (''messages_api'', JBool False),
     (''bos_text'', JStr ''<|begin_of_text|>''),
     (''role_system_message_prefix'', JStr ''''),
     (''role_system_message_suffix'', JStr ''''),
     (''role_system_prefix'', JStr ''<|start_header_id|>''),
     (''role_system_suffix'', JStr ''<|end_header_id|>''),
     (''role_user_message_prefix'', JStr ''''),
     (''role_user_message_suffix'', JStr ''''),
     (''role_user_prefix'', JStr ''<|start_header_id|>''),
     (''role_user_suffix'', JStr ''<|end_header_id|>''),
     (''role_assistant_message_prefix'', JStr ''''),
     (''role_assistant_message_suffix'', JStr ''''),
     (''role_assistant_prefix'', JStr ''<|start_header_id|>''),
     (''role_assistant_suffix'', JStr ''<|end_header_id|>''),
     (''eom_text'', JStr ''<|eot_id|>''),
     (''display_role_names'', JBool True),
     (''max_tokens_param_name'', JStr ''max_gen_len''),
     (''max_supported_response_tokens'', JNum 2048),
     (''response_chunk_element'', JStr ''generation'')],
    [(''modelName'', JStr ''Llama-3-1-8b''),
     (''modelId'', JStr ''meta.llama3-1-8b-instruct-v1:0''),
     (''messages_api'', JBool False),
     (''bos_text'', JStr ''<|begin_of_text|>''),
     (''role_system_message_prefix'', JStr ''''),
     (''role_system_message_suffix'', JStr ''''),
     (''role_system_prefix'', JStr ''<|start_header_id|>''),
     (''role_system_suffix'', JStr ''<|end_header_id|>''),
     (''role_user_message_prefix'', JStr ''''),
     (''role_user_message_suffix'', JStr ''''),
     (''role_user_prefix'', JStr ''<|start_header_id|>''),
     (''role_user_suffix'', JStr ''<|end_header_id|>''),
     (''role_assistant_message_prefix'', JStr ''''),
     (''role_assistant_message_suffix'', JStr ''''),
     (''role_assistant_prefix'', JStr ''<|start_header_id|>''),
     (''role_assistant_suffix'', JStr ''<|end_header_id|>''),
     (''eom_text'', JStr ''<|eot_id|>''),
     (''display_role_names'', JBool True),
     (''max_tokens_param_name'', JStr ''max_gen_len''),
     (''max_supported_response_tokens'', JNum 2048),
     (''response_chunk_element'', JStr ''generation'')],
    [(''modelName'', JStr ''Llama-3-1-70b''),
     (''modelId'', JStr ''meta.llama3-1-70b-instruct-v1:0''),
     (''messages_api'', JBool False),
     (''bos_text'', JStr ''<|begin_of_text|>''),
     (''role_system_message_prefix'', JStr ''''),
     (''role_system_message_suffix'', JStr ''''),
     (''role_system_prefix'', JStr ''<|start_header_id|>''),
     (''role_system_suffix'', JStr ''<|end_header_id|>''),
     (''role_user_message_prefix'', JStr ''''),
     (''role_user_message_suffix'', JStr ''''),
     (''role_user_prefix'', JStr ''<|start_header_id|>''),
     (''role_user_suffix'', JStr ''<|end_header_id|>''),
     (''role_assistant_message_prefix'', JStr ''''),
     (''role_assistant_message_suffix'', JStr ''''),
     (''role_assistant_prefix'', JStr ''<|start_header_id|>''),
     (''role_assistant_suffix'', JStr ''<|end_header_id|>''),
     (''eom_text'', JStr ''<|eot_id|>''),
     (''display_role_names'', JBool True),
     (''max_tokens_param_name'', JStr ''max_gen_len''),
     (''max_supported_response_tokens'', JNum 2048),
     (''response_chunk_element'', JStr ''generation'')],
    [(''modelName'', JStr ''Llama-3-1-405b''),
     (''modelId'', JStr ''meta.llama3-1-405b-instruct-v1:0''),
     (''messages_api'', JBool False),
     (''bos_text'', JStr ''<|begin_of_text|>''),
     (''role_system_message_prefix'', JStr ''''),
     (''role_system_message_suffix'', JStr ''''),
     (''role_system_prefix'', JStr ''<|start_header_id|>''),
     (''role_system_suffix'', JStr ''<|end_header_id|>''),
     (''role_user_message_prefix'', JStr ''''),
     (''role_user_message_suffix'', JStr ''''),
     (''role_user_prefix'', JStr ''<|start_header_id|>''),
     (''role_user_suffix'', JStr ''<|end_header_id|>''),
     (''role_assistant_message_prefix'', JStr ''''),
     (''role_assistant_message_suffix'', JStr ''''),
     (''role_assistant_prefix'', JStr ''<|start_header_id|>''),
     (''role_assistant_suffix'', JStr ''<|end_header_id|>''),
     (''eom_text'', JStr ''<|eot_id|>''),
     (''display_role_names'', JBool True),
     (''max_tokens_param_name'', JStr ''max_gen_len''),
     (''max_supported_response_tokens'', JNum 2048),
     (''response_chunk_element'', JStr ''generation'')],
    [(''modelName'', JStr ''Llama-3-8b''),
     (''modelId'', JStr ''meta.llama3-8b-instruct-v1:0''),
     (''messages_api'', JBool False),
     (''bos_text'', JStr ''<|begin_of_text|>''),
     (''role_system_message_prefix'', JStr ''''),
     (''role_system_message_suffix'', JStr ''''),
     (''role_system_prefix'', JStr ''<|start_header_id|>''),
     (''role_system_suffix'', JStr ''<|end_header_id|>''),
     (''role_user_message_prefix'', JStr ''''),
     (''role_user_message_suffix'', JStr ''''),
     (''role_user_prefix'', JStr ''<|start_header_id|>''),
     (''role_user_suffix'', JStr ''<|end_header_id|>''),
     (''role_assistant_message_prefix'', JStr ''''),
     (''role_assistant_message_suffix'', JStr ''''),
     (''role_assistant_prefix'', JStr ''<|start_header_id|>''),
     (''role_assistant_suffix'', JStr ''<|end_header_id|>''),
     (''eom_text'', JStr ''<|eot_id|>''),
     (''display_role_names'', JBool True),
     (''max_tokens_param_name'', JStr ''max_gen_len''),
     (''max_supported_response_tokens'', JNum 2048),
     (''response_chunk_element'', JStr ''generation'')],
    [(''modelName'', JStr ''Llama-3-70b''),
     (''modelId'', JStr ''meta.llama3-70b-instruct-v1:0''),
     (''messages_api'', JBool False),
     (''bos_text'', JStr ''<|begin_of_text|>''),
     (''role_system_message_prefix'', JStr ''''),
     (''role_system_message_suffix'', JStr ''''),
     (''role_system_prefix'', JStr ''<|start_header_id|>''),
     (''role_system_suffix'', JStr ''<|end_header_id|>''),
     (''role_user_message_prefix'', JStr ''''),
     (''role_user_message_suffix'', JStr ''''),
     (''role_user_prefix'', JStr ''<|start_header_id|>''),
     (''role_user_suffix'', JStr ''<|end_header_id|>''),
     (''role_assistant_message_prefix'', JStr ''''),
     (''role_assistant_message_suffix'', JStr ''''),
     (''role_assistant_prefix'', JStr ''<|start_header_id|>''),
     (''role_assistant_suffix'', JStr ''<|end_header_id|>''),
     (''eom_text'', JStr ''<|eot_id|>''),
     (''display_role_names'', JBool True),
     (''max_tokens_param_name'', JStr ''max_gen_len''),
     (''max_supported_response_tokens'', JNum 2048),
     (''response_chunk_element'', JStr ''generation'')],
    [(''modelName'', JStr ''Mistral-7b''),
     (''modelId'', JStr ''mistral.mistral-7b-instruct-v0:2''),
     (''messages_api'', JBool False),
     (''bos_text'', JStr ''<s>''),
     (''role_system_message_prefix'', JStr ''''),
     (''role_system_message_suffix'', JStr ''''),
     (''role_system_prefix'', JStr ''''),
     (''role_system_suffix'', JStr ''''),
     (''role_user_message_prefix'', JStr ''[INST]''),
     (''role_user_message_suffix'', JStr ''[/INST]''),
     (''role_user_prefix'', JStr ''''),
     (''role_user_suffix'', JStr ''''),
     (''role_assistant_message_prefix'', JStr ''''),
     (''role_assistant_message_suffix'', JStr ''''),
     (''role_assistant_prefix'', JStr ''''),
     (''role_assistant_suffix'', JStr ''''),
     (''eom_text'', JStr ''</s>''),
     (''display_role_names'', JBool False),
     (''max_tokens_param_name'', JStr ''max_tokens''),
     (''max_supported_response_tokens'', JNum 8192),
     (''response_chunk_element'', JStr ''outputs[0].text'')],
    [(''modelName'', JStr ''Mixtral-8x7b''),
     (''modelId'', JStr ''mistral.mixtral-8x7b-instruct-v0:1''),
     (''messages_api'', JBool False),
     (''bos_text'', JStr ''<s>''),
     (''role_system_message_prefix'', JStr ''''),
     (''role_system_message_suffix'', JStr ''''),
     (''role_system_prefix'', JStr ''''),
     (''role_system_suffix'', JStr ''''),
     (''role_user_message_prefix'', JStr ''[INST]''),
     (''role_user_message_suffix'', JStr ''[/INST]''),
     (''role_user_prefix'', JStr ''''),
     (''role_user_suffix'', JStr ''''),
     (''role_assistant_message_prefix'', JStr ''''),
     (''role_assistant_message_suffix'', JStr ''''),
     (''role_assistant_prefix'', JStr ''''),
     (''role_assistant_suffix'', JStr ''''),
     (''eom_text'', JStr ''</s>''),
     (''display_role_names'', JBool False),
     (''max_tokens_param_name'', JStr ''max_tokens''),
     (''max_supported_response_tokens'', JNum 4096),
     (''response_chunk_element'', JStr ''outputs[0].text'')],
    [(''modelName'', JStr ''Mistral-Large''),
     (''modelId'', JStr ''mistral.mistral-large-2402-v1:0''),
     (''messages_api'', JBool False),
     (''bos_text'', JStr ''<s>''),
     (''role_system_message_prefix'', JStr ''''),
     (''role_system_message_suffix'', JStr ''''),
     (''role_system_prefix'', JStr ''''),
     (''role_system_suffix'', JStr ''''),
     (''role_user_message_prefix'', JStr ''[INST]''),
     (''role_user_message_suffix'', JStr ''[/INST]''),
     (''role_user_prefix'', JStr ''''),
     (''role_user_suffix'', JStr ''''),
     (''role_assistant_message_prefix'', JStr ''''),
     (''role_assistant_message_suffix'', JStr ''''),
     (''role_assistant_prefix'', JStr ''''),
     (''role_assistant_suffix'', JStr ''''),
     (''eom_text'', JStr ''</s>''),
     (''display_role_names'', JBool False),
     (''max_tokens_param_name'', JStr ''max_tokens''),
     (''max_supported_response_tokens'', JNum 8192),
     (''response_chunk_element'', JStr ''outputs[0].text'')]]"

text \<open>The \<open>modelName\<close> of every entry, in registry order.\<close>

definition modelNames :: "json option list" where
  "modelNames = map (\<lambda>e. field e ''modelName'') bedrock_models"

text \<open>An entry defines the path \<open>k\<close>: the property is there and is a string.\<close>

fun defines_path :: "js_object \<Rightarrow> string \<Rightarrow> bool" where
  "defines_path e k = (case field e k of Some (JStr p) \<Rightarrow> True | _ \<Rightarrow> False)"

section \<open>The chat-completion messages\<close>

text \<open>
  Modelled from the spec: the ChatMessage of section 3. JavaScript declares no type for
  the elements of \<open>messages\<close>; the handlers read their number and the length of their
  \<open>content\<close>. A message is a role, one of system, user and assistant, and a content
  string.
\<close>

datatype Role = System | User | Assistant

record ChatMessage =
  role :: Role
  content :: string

section \<open>The HTTP layer: requests, the response object, the backend wrapper\<close>

subsection \<open>Requests\<close>

text \<open>
  \<open>req.body\<close> after \<open>bodyParser.json()\<close>; a property that the client left out is
  \<open>None\<close>. \<open>authorization\<close> is \<open>req.headers.authorization\<close> (read by server.js),
  \<open>rawHeaders\<close> is \<open>req.rawHeaders\<close> (read by the unnamed server).
\<close>

record request_body =
  messages :: "ChatMessage list option"
  model :: "string option"
  max_tokens :: "rat option"
  temperature :: "rat option"
  top_p :: "rat option"
  stream :: "bool option"

record request =
  body :: request_body
  authorization :: "string option"
  rawHeaders :: "string list"

text \<open>A destructuring default \<open>{ k = d } = obj\<close>: the default stands in for \<open>undefined\<close>.\<close>

fun or_default :: "'a option \<Rightarrow> 'a \<Rightarrow> 'a" where
  "or_default None d = d"
| "or_default (Some v) d = v"

text \<open>The object handed to \<open>bedrockWrapper\<close> (\<open>bedrockParams\<close>, \<open>openaiChatCompletionsCreateObject\<close>).\<close>

record bedrock_params =
  p_messages :: "ChatMessage list"
  p_model :: string
  p_max_tokens :: rat
  p_stream :: bool
  p_temperature :: rat
  p_top_p :: rat

subsection \<open>Credentials: \<open>extractAWSCreds\<close> of utils.js\<close>

text \<open>
  utils.js is not among the sources, so \<open>extractAWSCreds\<close> is a parameter of the
  handlers. Its result either has \<open>error\<close> set and carries \<open>message\<close>, or carries
  \<open>credentials\<close>.
\<close>

record credentials =
  AWS_REGION :: "string option"
  AWS_ACCESS_KEY_ID :: "string option"
  AWS_SECRET_ACCESS_KEY :: "string option"

datatype token_parts = TokenError string | TokenCredentials credentials

record aws_creds =
  region :: "string option"
  accessKeyId :: "string option"
  secretAccessKey :: "string option"

definition awsCreds :: "credentials \<Rightarrow> aws_creds" where
  "awsCreds c = \<lparr>region = AWS_REGION c, accessKeyId = AWS_ACCESS_KEY_ID c,
     secretAccessKey = AWS_SECRET_ACCESS_KEY c\<rparr>"

text \<open>JavaScript truthiness of a string that may be \<open>undefined\<close>.\<close>

fun truthy :: "string option \<Rightarrow> bool" where
  "truthy None = False"
| "truthy (Some s) = (s \<noteq> [])"

subsection \<open>Errors and the code of bedrock-wrapper.js\<close>

datatype js_error = JsError (error_name: string) (error_message: string)

definition ERR_HTTP_HEADERS_SENT :: js_error where
  "ERR_HTTP_HEADERS_SENT = JsError ''Error'' ''Cannot set headers after they are sent to the client''"

text \<open>
  \<open>bedrockWrapper\<close> (bedrock-wrapper.js) is an async generator and not among the
  sources: it is a parameter of the handlers. One run of it yields finitely many chunks
  and then either ends or throws. bedrock-wrapper.js is the code that holds the registry
  array, so a call is given the array as it stands and returns it as the call leaves it.
  The third argument of the call, the logging switch, only affects the console and is
  left out.
\<close>

record wrapper_run =
  yielded :: "string list"
  thrown :: "js_error option"

type_synonym wrapper = "aws_creds \<Rightarrow> bedrock_params \<Rightarrow> js_object list \<Rightarrow> wrapper_run \<times> js_object list"


subsection \<open>The response object\<close>

text \<open>
  What \<open>res.write\<close>, \<open>res.json\<close> and \<open>res.send\<close> put on the wire, kept symbolic:
  \<open>SseData j\<close> is the server-sent-event frame \<open>data: \<close> + \<open>JSON.stringify(j)\<close> + two
  newlines, \<open>SseDone\<close> is the frame \<open>data: [DONE]\<close>, \<open>JsonText j\<close> is
  \<open>JSON.stringify(j)\<close>, \<open>PlainText s\<close> is \<open>s\<close>.
\<close>

datatype written = SseData json | SseDone | JsonText json | PlainText string

text \<open>
  The state of an Express/Node response. \<open>statusCode\<close> is the property that
  \<open>res.status\<close> assigns. \<open>headersSent\<close> is Node's flag: it is set when the head (status
  line and headers) is stored for sending, by \<open>res.writeHead\<close> or by the first body
  write or \<open>res.end\<close>; \<open>statusLine\<close> is the status of the stored head, which no later
  call changes. Node puts the stored head on the socket only with the first body write
  or with \<open>res.end\<close>: \<open>headFlushed\<close> says that this happened, and only then has the
  client a status. \<open>headerFields\<close> holds the headers that the handlers set and the
  \<open>Content-Type\<close> that \<open>res.json\<close> and \<open>res.send\<close> set; the headers that Express adds on
  its own (\<open>X-Powered-By\<close>, \<open>Content-Length\<close>, \<open>ETag\<close>) are left out. \<open>bodyWrites\<close>
  are the body writes in order, \<open>finished\<close> says whether \<open>res.end\<close> ran.
\<close>

record response =
  statusCode :: nat
  headerFields :: "(string \<times> string) list"
  headersSent :: bool
  statusLine :: "nat option"
  headFlushed :: bool
  bodyWrites :: "written list"
  finished :: bool

definition fresh_response :: response where
  "fresh_response = \<lparr>statusCode = 200, headerFields = [], headersSent = False,
     statusLine = None, headFlushed = False, bodyWrites = [], finished = False\<rparr>"

text \<open>The status that the client has received: that of the head, once it is flushed.\<close>

definition clientStatus :: "response \<Rightarrow> nat option" where
  "clientStatus r = (if headFlushed r then statusLine r else None)"

definition put_header :: "string \<Rightarrow> string \<Rightarrow> (string \<times> string) list \<Rightarrow> (string \<times> string) list" where
  "put_header k v hs = filter (\<lambda>kv. fst kv \<noteq> k) hs @ [(k, v)]"

text \<open>\<open>res.status(code)\<close> assigns the property and nothing else.\<close>

definition res_status :: "nat \<Rightarrow> response \<Rightarrow> response" where
  "res_status code r = r\<lparr>statusCode := code\<rparr>"

text \<open>The head is stored once, with the status code of that moment.\<close>

definition store_head :: "response \<Rightarrow> response" where
  "store_head r = (if headersSent r then r
     else r\<lparr>headersSent := True, statusLine := Some (statusCode r)\<rparr>)"

text \<open>A body write and \<open>res.end\<close> store the head if need be and put it on the socket.\<close>

definition flush_head :: "response \<Rightarrow> response" where
  "flush_head r = (store_head r)\<lparr>headFlushed := True\<rparr>"

text \<open>
  \<open>res.setHeader\<close> and \<open>res.writeHead\<close> throw once the head is stored; \<open>res.writeHead\<close>
  stores it, with its status code and its headers, and does not flush it.
\<close>

definition res_setHeader :: "string \<Rightarrow> string \<Rightarrow> response \<Rightarrow> js_error + response" where
  "res_setHeader k v r = (if headersSent r then Inl ERR_HTTP_HEADERS_SENT
     else Inr (r\<lparr>headerFields := put_header k v (headerFields r)\<rparr>))"

definition res_writeHead :: "nat \<Rightarrow> (string \<times> string) list \<Rightarrow> response \<Rightarrow> js_error + response" where
  "res_writeHead code hs r = (if headersSent r then Inl ERR_HTTP_HEADERS_SENT
     else Inr (store_head (r\<lparr>statusCode := code,
       headerFields := foldl (\<lambda>acc kv. put_header (fst kv) (snd kv) acc) (headerFields r) hs\<rparr>)))"

definition res_write :: "written \<Rightarrow> response \<Rightarrow> response" where
  "res_write w r = (flush_head r)\<lparr>bodyWrites := bodyWrites (flush_head r) @ [w]\<rparr>"

definition res_end :: "response \<Rightarrow> response" where
  "res_end r = (flush_head r)\<lparr>finished := True\<rparr>"

text \<open>
  \<open>res.json\<close> and \<open>res.send\<close> set headers before they write (\<open>Content-Type\<close>, with
  the charset added to the type that is already set or else to their default type), so
  they throw \<open>ERR_HTTP_HEADERS_SENT\<close> once the head is stored, and write nothing then.
  Otherwise they write the body and end the response.
\<close>

definition content_type :: "string \<Rightarrow> (string \<times> string) list \<Rightarrow> (string \<times> string) list" where
  "content_type default_type hs =
     put_header ''Content-Type''
       ((case map_of hs ''Content-Type'' of None \<Rightarrow> default_type | Some t \<Rightarrow> t) @ ''; charset=utf-8'')
       hs"

definition res_json :: "json \<Rightarrow> response \<Rightarrow> js_error + response" where
  "res_json j r = (if headersSent r then Inl ERR_HTTP_HEADERS_SENT
     else Inr (res_end (res_write (JsonText j)
       (r\<lparr>headerFields := content_type ''application/json'' (headerFields r)\<rparr>))))"

definition res_send :: "string \<Rightarrow> response \<Rightarrow> js_error + response" where
  "res_send s r = (if headersSent r then Inl ERR_HTTP_HEADERS_SENT
     else Inr (res_end (res_write (PlainText s)
       (r\<lparr>headerFields := content_type ''text/html'' (headerFields r)\<rparr>))))"

subsection \<open>The process state and completions\<close>

text \<open>
  What the code of a request can touch: the response of the request, the calls made to
  the backend wrapper (in order), the number of \<open>Date.now()\<close> reads so far, the
  module-level registry array, and the timer that server.js sets (\<open>timerArmed\<close>: set and
  neither run nor cleared). \<open>uncaught\<close> holds the error that the timer callback threw,
  if it did: nothing catches it, the sources install no handler for uncaught exceptions,
  and Node ends the process there. The clock is a parameter \<open>now\<close>: \<open>now k\<close> is what the
  \<open>k\<close>-th read of \<open>Date.now()\<close> returns. Console output is not part of the state.
\<close>

record process_state =
  res :: response
  wrapperCalls :: "(aws_creds \<times> bedrock_params) list"
  ticks :: nat
  registry :: "js_object list"
  timerArmed :: bool
  uncaught :: "js_error option"

definition initial_state :: process_state where
  "initial_state = \<lparr>res = fresh_response, wrapperCalls = [], ticks = 0,
     registry = bedrock_models, timerArmed = False, uncaught = None\<rparr>"

text \<open>
  A block of statements completes normally (\<open>None\<close>) or abruptly with a thrown error, in
  either case leaving a state behind.
\<close>

type_synonym completion = "js_error option \<times> process_state"

definition on_res :: "(response \<Rightarrow> js_error + response) \<Rightarrow> process_state \<Rightarrow> completion" where
  "on_res f s = (case f (res s) of Inl e \<Rightarrow> (Some e, s) | Inr r \<Rightarrow> (None, s\<lparr>res := r\<rparr>))"

text \<open>\<open>res.status(code).json(j)\<close> and \<open>res.status(code).send(s)\<close>.\<close>

definition status_json :: "nat \<Rightarrow> json \<Rightarrow> process_state \<Rightarrow> completion" where
  "status_json code j s = on_res (res_json j) (s\<lparr>res := res_status code (res s)\<rparr>)"

definition status_send :: "nat \<Rightarrow> string \<Rightarrow> process_state \<Rightarrow> completion" where
  "status_send code txt s = on_res (res_send txt) (s\<lparr>res := res_status code (res s)\<rparr>)"

text \<open>Decimal digits of a number inside a template literal.\<close>

fun show_nat :: "nat \<Rightarrow> string" where
  "show_nat n = (if n < 10 then [char_of (48 + n)]
     else show_nat (n div 10) @ [char_of (48 + n mod 10)])"

declare show_nat.simps [simp del]

text \<open>String \<open>replace\<close> with a string pattern: the first occurrence only.\<close>

fun replace_first :: "string \<Rightarrow> string \<Rightarrow> string \<Rightarrow> string" where
  "replace_first pat rep [] = (if pat = [] then rep else [])"
| "replace_first pat rep (c # cs) =
     (if prefix pat (c # cs) then rep @ drop (length pat) (c # cs)
      else c # replace_first pat rep cs)"

definition sse_headers :: "(string \<times> string) list" where
  "sse_headers = [(''Content-Type'', ''text/event-stream''), (''Cache-Control'', ''no-cache''),
     (''Connection'', ''keep-alive'')]"

subsection \<open>The endpoint that lists the supported models\<close>


section \<open>server.js: \<open>POST /v1/chat/completions\<close>\<close>

text \<open>
  The destructuring of \<open>req.body\<close> with its defaults, and the \<open>bedrockParams\<close> object
  built from the result.
\<close>

definition bedrockParams :: "request \<Rightarrow> bedrock_params" where
  "bedrockParams req = \<lparr>
     p_messages = or_default (messages (body req)) [],
     p_model = or_default (model (body req)) ''claude-3-5-sonnet'',
     p_max_tokens = or_default (max_tokens (body req)) 800,
     p_stream = or_default (stream (body req)) False,
     p_temperature = or_default (temperature (body req)) 0.4,
     p_top_p = or_default (top_p (body req)) 0.9\<rparr>"

definition error_json :: "string \<Rightarrow> string \<Rightarrow> nat \<Rightarrow> json" where
  "error_json msg type code = JObj [(''error'', JObj [(''message'', JStr msg),
     (''type'', JStr type), (''code'', JNum (of_nat code))])]"

text \<open>The frame of one chunk; \<open>t1\<close> and \<open>t2\<close> are its two reads of \<open>Date.now()\<close>.\<close>

definition streamResponse :: "nat \<Rightarrow> nat \<Rightarrow> string \<Rightarrow> string \<Rightarrow> json" where
  "streamResponse t1 t2 m chunk = JObj [
     (''id'', JStr (''chatcmpl-'' @ show_nat t1)),
     (''object'', JStr ''chat.completion.chunk''),
     (''created'', JNum (of_nat (t2 div 1000))),
     (''model'', JStr m),
     (''choices'', JArr [JObj [
        (''index'', JNum 0),
        (''delta'', JObj [(''role'', JStr ''assistant''), (''content'', JStr chunk)]),
        (''finish_reason'', JNull)]])]"

text \<open>The closing frame, sent after the loop.\<close>

definition stopResponse :: "nat \<Rightarrow> nat \<Rightarrow> string \<Rightarrow> json" where
  "stopResponse t1 t2 m = JObj [
     (''id'', JStr (''chatcmpl-'' @ show_nat t1)),
     (''object'', JStr ''chat.completion.chunk''),
     (''created'', JNum (of_nat (t2 div 1000))),
     (''model'', JStr m),
     (''choices'', JArr [JObj [
        (''index'', JNum 0),
        (''delta'', JObj []),
        (''finish_reason'', JStr ''stop'')]])]"

subsection \<open>The timer\<close>

text \<open>
  After the validation the handler calls \<open>setTimeout\<close> with a callback that answers 504,
  to run after 100000 milliseconds. The delay is real time. What the handler's run sees
  of it is whether the callback runs before the run is over, and where: JavaScript runs
  a timer callback only while the handler is suspended, and from \<open>setTimeout\<close> on the
  handler is suspended exactly when it waits for the next result of the generator. The
  results are counted from 0; the end or the throw of the generator is the result after
  the last chunk. The parameter \<open>fires\<close> of the handler is \<open>Some j\<close> when the callback
  runs while the handler waits for result \<open>j\<close>, and \<open>None\<close> (or a \<open>j\<close> beyond the last
  result) when it does not run before the handler is done.
\<close>

definition timeout_json :: json where
  "timeout_json = JObj [(''error'', JObj [(''message'', JStr ''Request timed out''),
     (''code'', JNum 504)])]"

text \<open>
  The callback: \<open>res.status(504).json(...)\<close>. Nothing catches what it throws.
\<close>

definition timer_callback :: "process_state \<Rightarrow> process_state" where
  "timer_callback s =
     (case status_json 504 timeout_json (s\<lparr>timerArmed := False\<rparr>) of
        (None, s') \<Rightarrow> s'
      | (Some e, s') \<Rightarrow> s'\<lparr>uncaught := Some e\<rparr>)"

text \<open>The handler waits for result \<open>j\<close> of the generator.\<close>

definition await_result :: "nat option \<Rightarrow> nat \<Rightarrow> process_state \<Rightarrow> process_state" where
  "await_result fires j s = (if timerArmed s \<and> fires = Some j then timer_callback s else s)"

text \<open>
  The timer does not run while the handler waits for the results \<open>0\<close> to \<open>n\<close>.
\<close>

definition timer_quiet :: "nat option \<Rightarrow> nat \<Rightarrow> bool" where
  "timer_quiet fires n = (case fires of None \<Rightarrow> True | Some j \<Rightarrow> n < j)"

text \<open>
  The chunks that reach the handler: all of them, or those before the wait in which the
  timer callback runs.
\<close>

definition delivered :: "nat option \<Rightarrow> string list \<Rightarrow> string list" where
  "delivered fires cs = (case fires of None \<Rightarrow> cs | Some j \<Rightarrow> take j cs)"

subsection \<open>The two branches\<close>

text \<open>
  The streaming \<open>for await\<close> loop: the wait for result \<open>j\<close>, then the body for the
  chunk. The run is over when the process has ended.
\<close>

fun stream_chunks :: "nat option \<Rightarrow> (nat \<Rightarrow> nat) \<Rightarrow> string \<Rightarrow> nat \<Rightarrow> string list \<Rightarrow> process_state \<Rightarrow> process_state" where
  "stream_chunks fires now m j [] s = s"
| "stream_chunks fires now m j (chunk # rest) s =
     (let s' = await_result fires j s in
      if uncaught s' \<noteq> None then s'
      else stream_chunks fires now m (Suc j) rest
        (s'\<lparr>res := res_write (SseData (streamResponse (now (ticks s')) (now (ticks s' + 1)) m chunk)) (res s'),
            ticks := ticks s' + 2\<rparr>))"

text \<open>
  The non-streaming loop \<open>for await (const data of response) { completeResponse += data; }\<close>,
  with its waits.
\<close>

fun collect_chunks :: "nat option \<Rightarrow> nat \<Rightarrow> string list \<Rightarrow> string \<times> process_state \<Rightarrow> string \<times> process_state" where
  "collect_chunks fires j [] cs = cs"
| "collect_chunks fires j (d # ds) (completeResponse, s) =
     (let s' = await_result fires j s in
      if uncaught s' \<noteq> None then (completeResponse, s')
      else collect_chunks fires (Suc j) ds (completeResponse @ d, s'))"

text \<open>\<open>messages.reduce((acc, msg) => acc + msg.content.length, 0)\<close>.\<close>

definition content_length :: "ChatMessage list \<Rightarrow> nat" where
  "content_length msgs = foldl (\<lambda>acc msg. acc + length (content msg)) 0 msgs"

text \<open>The JSON answer of the non-streaming branch; three reads of \<open>Date.now()\<close>.\<close>

definition completionResponse :: "nat \<Rightarrow> nat \<Rightarrow> nat \<Rightarrow> string \<Rightarrow> ChatMessage list \<Rightarrow> string \<Rightarrow> json" where
  "completionResponse t1 t2 t3 m msgs completeResponse = JObj [
     (''id'', JStr (''chatcmpl-'' @ show_nat t1)),
     (''object'', JStr ''chat.completion''),
     (''created'', JNum (of_nat (t2 div 1000))),
     (''model'', JStr m),
     (''system_fingerprint'', JStr (''fp_'' @ show_nat t3)),
     (''choices'', JArr [JObj [
        (''index'', JNum 0),
        (''message'', JObj [(''role'', JStr ''assistant''), (''content'', JStr completeResponse)]),
        (''finish_reason'', JStr ''stop'')]]),
     (''usage'', JObj [
        (''prompt_tokens'', JNum (of_nat (content_length msgs))),
        (''completion_tokens'', JNum (of_nat (length completeResponse))),
        (''total_tokens'', JNum (of_nat (content_length msgs + length completeResponse)))])]"

text \<open>
  The streaming branch: the head, the wrapper call, one frame per chunk; then the wait
  for the end of the generator. When it ends: the closing frame, \<open>[DONE]\<close> and
  \<open>res.end()\<close>. When it throws, the error leaves the branch with the state as the loop
  left it. The timer is not cleared on this branch.
\<close>

definition stream_branch :: "nat option \<Rightarrow> wrapper \<Rightarrow> (nat \<Rightarrow> nat) \<Rightarrow> aws_creds \<Rightarrow> bedrock_params \<Rightarrow> process_state \<Rightarrow> completion" where
  "stream_branch fires bedrockWrapper now creds p s =
     (case res_writeHead 200 sse_headers (res s) of
        Inl e \<Rightarrow> (Some e, s)
      | Inr r \<Rightarrow>
          (let run = fst (bedrockWrapper creds p (registry s));
               s1 = s\<lparr>res := r, wrapperCalls := wrapperCalls s @ [(creds, p)],
                      registry := snd (bedrockWrapper creds p (registry s))\<rparr>;
               s2 = stream_chunks fires now (p_model p) 0 (yielded run) s1
           in if uncaught s2 \<noteq> None then (None, s2)
              else
                (let s3 = await_result fires (length (yielded run)) s2
                 in if uncaught s3 \<noteq> None then (None, s3)
                    else case thrown run of
                        Some e \<Rightarrow> (Some e, s3)
                      | None \<Rightarrow>
                          (None, s3\<lparr>res := res_end (res_write SseDone (res_write
                               (SseData (stopResponse (now (ticks s3)) (now (ticks s3 + 1)) (p_model p)))
                               (res s3))),
                             ticks := ticks s3 + 2\<rparr>))))"

text \<open>
  The non-streaming branch: the wrapper call, the chunks collected into
  \<open>completeResponse\<close>, the wait for the end of the generator; when it ends,
  \<open>clearTimeout\<close>, \<open>res.setHeader\<close> and \<open>res.json\<close>.
\<close>

definition nonstream_branch :: "nat option \<Rightarrow> wrapper \<Rightarrow> (nat \<Rightarrow> nat) \<Rightarrow> aws_creds \<Rightarrow> bedrock_params \<Rightarrow> process_state \<Rightarrow> completion" where
  "nonstream_branch fires bedrockWrapper now creds p s =
     (let run = fst (bedrockWrapper creds p (registry s));
          s1 = s\<lparr>wrapperCalls := wrapperCalls s @ [(creds, p)],
                 registry := snd (bedrockWrapper creds p (registry s))\<rparr>;
          collected = collect_chunks fires 0 (yielded run) ([], s1);
          completeResponse = fst collected;
          s2 = snd collected
      in if uncaught s2 \<noteq> None then (None, s2)
         else
           (let s3 = await_result fires (length (yielded run)) s2
            in if uncaught s3 \<noteq> None then (None, s3)
               else case thrown run of
                   Some e \<Rightarrow> (Some e, s3)
                 | None \<Rightarrow>
                     (let s4 = s3\<lparr>timerArmed := False\<rparr>
                      in case res_setHeader ''Content-Type'' ''application/json'' (res s4) of
                           Inl e \<Rightarrow> (Some e, s4)
                         | Inr r \<Rightarrow>
                             on_res (res_json (completionResponse (now (ticks s4)) (now (ticks s4 + 1))
                                  (now (ticks s4 + 2)) (p_model p) (p_messages p) completeResponse))
                               (s4\<lparr>res := r, ticks := ticks s4 + 3\<rparr>))))"

subsection \<open>The handler\<close>

text \<open>
  The \<open>try\<close> block: the validation, the credentials, \<open>setTimeout\<close>, and one of the two
  branches.
\<close>

definition try_block :: "nat option \<Rightarrow> (string option \<Rightarrow> token_parts) \<Rightarrow> wrapper \<Rightarrow> (nat \<Rightarrow> nat) \<Rightarrow> request \<Rightarrow> process_state \<Rightarrow> completion" where
  "try_block fires extractAWSCreds bedrockWrapper now req s =
     (let p = bedrockParams req in
      if p_messages p = [] then
        status_json 400 (error_json ''Messages array is empty'' ''invalid_request_error'' 400) s
      else
        (let bearerToken = map_option (replace_first ''Bearer '' []) (authorization req) in
         if \<not> truthy bearerToken then
           status_json 401 (error_json ''No authorization token provided'' ''auth_error'' 401) s
         else
           (case extractAWSCreds bearerToken of
              TokenError msg \<Rightarrow> status_json 401 (error_json msg ''auth_error'' 401) s
            | TokenCredentials c \<Rightarrow>
                if p_stream p
                then stream_branch fires bedrockWrapper now (awsCreds c) p (s\<lparr>timerArmed := True\<rparr>)
                else nonstream_branch fires bedrockWrapper now (awsCreds c) p (s\<lparr>timerArmed := True\<rparr>))))"

text \<open>The \<open>catch\<close> block: whatever was thrown, \<open>res.status(500).json(...)\<close>.\<close>

definition catch_block :: "js_error \<Rightarrow> process_state \<Rightarrow> completion" where
  "catch_block error s =
     status_json 500 (error_json ''An error occurred during processing'' ''internal_server_error'' 500) s"

text \<open>
  The handler, on the fresh response that Express creates for the request. An abrupt
  completion of the handler is a rejected promise that nothing handles. When the process
  has ended in the timer callback, the run is over where it stood.
\<close>

definition chat_completions :: "nat option \<Rightarrow> (string option \<Rightarrow> token_parts) \<Rightarrow> wrapper \<Rightarrow> (nat \<Rightarrow> nat) \<Rightarrow> request \<Rightarrow> process_state \<Rightarrow> completion" where
  "chat_completions fires extractAWSCreds bedrockWrapper now req s =
     (case try_block fires extractAWSCreds bedrockWrapper now req (s\<lparr>res := fresh_response\<rparr>) of
        (None, s') \<Rightarrow> (None, s')
      | (Some error, s') \<Rightarrow> catch_block error s')"

section \<open>The unnamed server: \<open>POST /v1/chat/completions\<close>\<close>

definition unnamed_params :: "request \<Rightarrow> bedrock_params" where
  "unnamed_params req = \<lparr>
     p_messages = or_default (messages (body req)) [],
     p_model = or_default (model (body req)) ''Llama-3-8b'',
     p_max_tokens = or_default (max_tokens (body req)) 800,
     p_stream = or_default (stream (body req)) True,
     p_temperature = or_default (temperature (body req)) 0.1,
     p_top_p = or_default (top_p (body req)) 0.9\<rparr>"

definition delta_frame :: "string \<Rightarrow> json" where
  "delta_frame chunk = JObj [(''choices'', JArr [JObj [(''delta'', JObj [(''content'', JStr chunk)])]])]"

definition message_frame :: "string \<Rightarrow> json" where
  "message_frame completeResponse =
     JObj [(''choices'', JArr [JObj [(''message'', JObj [(''content'', JStr completeResponse)])]])]"

text \<open>
  The streamed loop; \<open>completeResponse\<close> is collected here as well, and only the
  unstreamed branch reads it. This server sets no timer.
\<close>

fun unnamed_stream_chunks :: "string list \<Rightarrow> string \<times> process_state \<Rightarrow> string \<times> process_state" where
  "unnamed_stream_chunks [] cs = cs"
| "unnamed_stream_chunks (chunk # rest) (completeResponse, s) =
     unnamed_stream_chunks rest
       (completeResponse @ chunk, s\<lparr>res := res_write (SseData (delta_frame chunk)) (res s)\<rparr>)"

text \<open>The unstreamed loop \<open>for await (const data of response) { completeResponse += data; }\<close>.\<close>

fun unnamed_collect :: "string \<Rightarrow> string list \<Rightarrow> string" where
  "unnamed_collect completeResponse [] = completeResponse"
| "unnamed_collect completeResponse (d # ds) = unnamed_collect (completeResponse @ d) ds"

text \<open>The \<open>try\<close> block: it starts after \<open>res.writeHead\<close>.\<close>

definition unnamed_try :: "wrapper \<Rightarrow> aws_creds \<Rightarrow> bedrock_params \<Rightarrow> process_state \<Rightarrow> completion" where
  "unnamed_try bedrockWrapper creds p s =
     (let run = fst (bedrockWrapper creds p (registry s));
          s1 = s\<lparr>wrapperCalls := wrapperCalls s @ [(creds, p)],
                 registry := snd (bedrockWrapper creds p (registry s))\<rparr>
      in if p_stream p then
           (let s2 = snd (unnamed_stream_chunks (yielded run) ([], s1))
            in case thrown run of
                 Some e \<Rightarrow> (Some e, s2)
               | None \<Rightarrow> (None, s2\<lparr>res := res_end (res s2)\<rparr>))
         else
           (let completeResponse = unnamed_collect [] (yielded run)
            in case thrown run of
                 Some e \<Rightarrow> (Some e, s1)
               | None \<Rightarrow> (None, s1\<lparr>res := res_end (res_write
                    (JsonText (message_frame completeResponse)) (res s1))\<rparr>)))"

text \<open>The \<open>catch\<close> block, with its \<open>headersSent\<close> guards.\<close>

definition unnamed_catch :: "js_error \<Rightarrow> process_state \<Rightarrow> completion" where
  "unnamed_catch error s =
     (if error_name error = ''ThrottlingException'' then
        (if \<not> headersSent (res s)
         then status_send 429 ''Too many requests, please wait before trying again.'' s
         else (None, s))
      else
        (if \<not> headersSent (res s)
         then status_send 500 ''Server error during request processing.'' s
         else (None, s)))"

text \<open>
  What follows the validation: \<open>res.writeHead(200, ...)\<close>, then \<open>try\<close> and \<open>catch\<close>.
\<close>

definition unnamed_respond :: "wrapper \<Rightarrow> aws_creds \<Rightarrow> bedrock_params \<Rightarrow> process_state \<Rightarrow> completion" where
  "unnamed_respond bedrockWrapper creds p s =
     (case on_res (res_writeHead 200 sse_headers) s of
        (Some e, s') \<Rightarrow> (Some e, s')
      | (None, s1) \<Rightarrow>
          (case unnamed_try bedrockWrapper creds p s1 of
             (None, s2) \<Rightarrow> (None, s2)
           | (Some error, s2) \<Rightarrow> unnamed_catch error s2))"

text \<open>The validation that stands before the head is written.\<close>

definition unnamed_token :: "request \<Rightarrow> string option" where
  "unnamed_token req = map_option (drop 7) (find (\<lambda>item. prefix ''Bearer '' item) (rawHeaders req))"

definition unnamed_chat_completions :: "(string option \<Rightarrow> token_parts) \<Rightarrow> wrapper \<Rightarrow> request \<Rightarrow> process_state \<Rightarrow> completion" where
  "unnamed_chat_completions extractAWSCreds bedrockWrapper req s0 =
     (let s = s0\<lparr>res := fresh_response\<rparr>; p = unnamed_params req in
      if p_messages p = [] then status_send 400 ''Messages array is empty'' s
      else
        (case extractAWSCreds (unnamed_token req) of
           TokenError msg \<Rightarrow> status_send 401 msg s
         | TokenCredentials c \<Rightarrow>
             if \<not> truthy (AWS_ACCESS_KEY_ID c) \<or> \<not> truthy (AWS_SECRET_ACCESS_KEY c)
             then status_send 401 ''Unauthorized'' s
             else unnamed_respond bedrockWrapper (awsCreds c) p s))"

section \<open>Reading the responses back\<close>

text \<open>
  Accessors for stating what a client finds in a response: \<open>j.k\<close> and \<open>j[i]\<close> on JSON
  values, the \<open>choices[0].delta.content\<close> of a frame and the
  \<open>choices[0].message.content\<close> of a JSON body.
\<close>

fun member_of :: "json \<Rightarrow> string \<Rightarrow> json option" where
  "member_of (JObj kvs) k = field kvs k"
| "member_of j k = None"

fun item_of :: "json \<Rightarrow> nat \<Rightarrow> json option" where
  "item_of (JArr vs) i = (if i < length vs then Some (vs ! i) else None)"
| "item_of j i = None"

definition first_choice :: "json \<Rightarrow> string \<Rightarrow> json option" where
  "first_choice j k =
     Option.bind (Option.bind (Option.bind (member_of j ''choices'') (\<lambda>cs. item_of cs 0))
       (\<lambda>c. member_of c k)) (\<lambda>d. member_of d ''content'')"

fun delta_content :: "written \<Rightarrow> json option" where
  "delta_content (SseData j) = first_choice j ''delta''"
| "delta_content w = None"


text \<open>
  The frames that the streaming loop of server.js writes for the chunks \<open>cs\<close> when the
  clock has been read \<open>t\<close> times before.
\<close>

fun chunk_frames :: "(nat \<Rightarrow> nat) \<Rightarrow> string \<Rightarrow> nat \<Rightarrow> string list \<Rightarrow> written list" where
  "chunk_frames now m t [] = []"
| "chunk_frames now m t (c # cs) =
     SseData (streamResponse (now t) (now (t + 1)) m c) # chunk_frames now m (t + 2) cs"

text \<open>
  The response right after \<open>res.writeHead(200, ...)\<close> on a fresh response: the head is
  stored and not flushed.
\<close>

definition sse_response :: response where
  "sse_response = \<lparr>statusCode = 200, headerFields = sse_headers, headersSent = True,
     statusLine = Some 200, headFlushed = False, bodyWrites = [], finished = False\<rparr>"

text \<open>
  A request passes the validation of server.js, with the credentials \<open>c\<close>: the messages
  are not empty, the bearer token is there, and \<open>extractAWSCreds\<close> accepts it.
\<close>

definition accepted :: "(string option \<Rightarrow> token_parts) \<Rightarrow> request \<Rightarrow> credentials \<Rightarrow> bool" where
  "accepted extractAWSCreds req c \<longleftrightarrow>
     p_messages (bedrockParams req) \<noteq> []
     \<and> truthy (map_option (replace_first ''Bearer '' []) (authorization req))
     \<and> extractAWSCreds (map_option (replace_first ''Bearer '' []) (authorization req)) = TokenCredentials c"

text \<open>
  A request passes the validation of the unnamed server, with the credentials \<open>c\<close>: the
  messages are not empty, \<open>extractAWSCreds\<close> accepts the token, and both keys are there.
\<close>

definition unnamed_accepted :: "(string option \<Rightarrow> token_parts) \<Rightarrow> request \<Rightarrow> credentials \<Rightarrow> bool" where
  "unnamed_accepted extractAWSCreds req c \<longleftrightarrow>
     p_messages (unnamed_params req) \<noteq> []
     \<and> extractAWSCreds (unnamed_token req) = TokenCredentials c
     \<and> truthy (AWS_ACCESS_KEY_ID c) \<and> truthy (AWS_SECRET_ACCESS_KEY c)"

subsection \<open>Sample inputs\<close>

definition sample_credentials :: credentials where
  "sample_credentials = \<lparr>AWS_REGION = Some ''us-east-1'', AWS_ACCESS_KEY_ID = Some ''AKIAEXAMPLE'',
     AWS_SECRET_ACCESS_KEY = Some ''secret''\<rparr>"

definition sample_extract :: "string option \<Rightarrow> token_parts" where
  "sample_extract token = (case token of None \<Rightarrow> TokenError ''No token''
     | Some t \<Rightarrow> TokenCredentials sample_credentials)"

definition sample_request :: "bool option \<Rightarrow> request" where
  "sample_request streamed = \<lparr>
     body = \<lparr>messages = Some [\<lparr>role = User, content = ''Hi''\<rparr>], model = None,
       max_tokens = None, temperature = None, top_p = None, stream = streamed\<rparr>,
     authorization = Some ''Bearer token'',
     rawHeaders = [''Authorization'', ''Bearer token'']\<rparr>"

text \<open>
  Three wrappers: one that yields two chunks and ends and one that yields a chunk and
  throws, which both leave the registry as it is, and one that empties the registry.
\<close>

definition sample_wrapper :: wrapper where
  "sample_wrapper creds p models = (\<lparr>yielded = [''Hel'', ''lo''], thrown = None\<rparr>, models)"

definition throttled_wrapper :: wrapper where
  "throttled_wrapper creds p models = (\<lparr>yielded = [''Hel''],
     thrown = Some (JsError ''ThrottlingException'' ''Too many requests'')\<rparr>, models)"

definition clearing_wrapper :: wrapper where
  "clearing_wrapper creds p models = (\<lparr>yielded = [''Hel'', ''lo''], thrown = None\<rparr>, [])"


definition sample_now :: "nat \<Rightarrow> nat" where
  "sample_now k = 1700000000000 + k"

section \<open>The model abstraction core, from the specification\<close>

text \<open>
  The request builder, the path extractor and the streaming decoder live in
  bedrock-wrapper.js, which is not among the sources. The definitions of this section
  follow the specification (its sections 3, 4.2, 4.3 and 4.4), with the specification's
  names.
\<close>

subsection \<open>Data model\<close>

text \<open>
  Modelled from the spec: the Path of section 3 (bedrock-wrapper.js, which parses and
  applies the paths, is missing). A path is a sequence of access steps, each a field by
  name or an index into a sequence.
\<close>

datatype path_step = FieldStep string | IndexStep nat

type_synonym path = "path_step list"

text \<open>
  Modelled from the spec: the PromptTemplate of section 3 (the code that reads the
  template fields is missing): one quadruple of markers per role, the begin-of-sequence
  and end-of-message markers, and the switch for role labels.
\<close>

record role_markers =
  messagePrefix :: string
  messageSuffix :: string
  rolePrefix :: string
  roleSuffix :: string

record PromptTemplate =
  beginOfSequenceMarker :: string
  systemMarkers :: role_markers
  userMarkers :: role_markers
  assistantMarkers :: role_markers
  endOfMessageMarker :: string
  displayRoleNames :: bool

text \<open>
  Modelled from the spec: the ModelDescriptor of section 3 (the code that reads a
  descriptor is missing). Following the design note of section 9, the calling
  convention is a tagged variant: a structured descriptor carries the flag for the
  separate system field, a flattened one carries its prompt template.
\<close>

datatype calling_convention = Structured bool | Flattened PromptTemplate

record ModelDescriptor =
  name :: string
  backendId :: string
  convention :: calling_convention
  tokenLimitParamName :: string
  maxSupportedResponseTokens :: int
  streamChunkPath :: path
  fullResponsePath :: path
  specialRequestFields :: "(string \<times> json) list"

text \<open>
  Modelled from the spec: the flag \<open>usesStructuredMessages\<close> of section 3, read off the
  calling convention of the descriptor.
\<close>

definition usesStructuredMessages :: "ModelDescriptor \<Rightarrow> bool" where
  "usesStructuredMessages d = (case convention d of Structured sep \<Rightarrow> True | Flattened t \<Rightarrow> False)"

text \<open>
  Modelled from the spec: the generation parameters and the request body of section 4.2
  (the builder in bedrock-wrapper.js is missing). The body is the structure that the
  transport receives: the messages with the separate system field, or the prompt
  string; the token limit as the pair of its parameter name and value; the sampling
  parameters; the stop sequence; the special request fields.
\<close>

record GenerationParams =
  maxTokens :: int
  genTemperature :: rat
  topP :: rat
  genStream :: bool

datatype payload = MessageList "ChatMessage list" "string option" | PromptString string

record RequestBody =
  payload :: payload
  tokenLimitParam :: "string \<times> int"
  temperatureParam :: rat
  topPParam :: rat
  stopSequence :: "string option"
  mergedFields :: "(string \<times> json) list"

subsection \<open>Request builder\<close>

text \<open>
  Modelled from the spec: the literal role name of section 4.2 and the marker quadruple
  that the template holds for each role (section 3); the builder is missing.
\<close>

fun role_name :: "Role \<Rightarrow> string" where
  "role_name System = ''system''"
| "role_name User = ''user''"
| "role_name Assistant = ''assistant''"

fun markers_of :: "PromptTemplate \<Rightarrow> Role \<Rightarrow> role_markers" where
  "markers_of t System = systemMarkers t"
| "markers_of t User = userMarkers t"
| "markers_of t Assistant = assistantMarkers t"

text \<open>
  Modelled from the spec: what section 4.2 emits for one message in flattened-prompt
  mode (the builder is missing): if \<open>displayRoleNames\<close>, the role's \<open>rolePrefix\<close>, the
  literal role name and \<open>roleSuffix\<close>; then the role's \<open>messagePrefix\<close>, the content and
  \<open>messageSuffix\<close>.
\<close>

definition emit_message :: "PromptTemplate \<Rightarrow> ChatMessage \<Rightarrow> string" where
  "emit_message t m =
     (if displayRoleNames t
      then rolePrefix (markers_of t (role m)) @ role_name (role m) @ roleSuffix (markers_of t (role m))
      else [])
     @ messagePrefix (markers_of t (role m)) @ content m @ messageSuffix (markers_of t (role m))"

text \<open>
  Modelled from the spec: the flattening loop of section 4.2 (the builder is missing):
  the messages in order, the \<open>beginOfSequenceMarker\<close> only before the very first one,
  nothing after the last.
\<close>

fun flatten_loop :: "PromptTemplate \<Rightarrow> bool \<Rightarrow> string \<Rightarrow> ChatMessage list \<Rightarrow> string" where
  "flatten_loop t first prompt [] = prompt"
| "flatten_loop t first prompt (m # ms) =
     flatten_loop t False
       (prompt @ (if first then beginOfSequenceMarker t else []) @ emit_message t m) ms"

text \<open>
  Modelled from the spec: the flattened prompt of section 4.2 (the builder is missing):
  the loop from the empty string, with the first message still to come.
\<close>

definition flattenPrompt :: "PromptTemplate \<Rightarrow> ChatMessage list \<Rightarrow> string" where
  "flattenPrompt t msgs = flatten_loop t True [] msgs"

text \<open>
  Modelled from the spec: structured mode of section 4.2 (the builder is missing): the
  first message with role system, when the descriptor asks for the separate field, is
  taken out of the sequence and placed under its own key.
\<close>

fun without_first_system :: "ChatMessage list \<Rightarrow> ChatMessage list" where
  "without_first_system [] = []"
| "without_first_system (m # ms) = (if role m = System then ms else m # without_first_system ms)"

text \<open>
  Modelled from the spec: the content of the first system message, for the separate
  field of structured mode (section 4.2; the builder is missing).
\<close>

definition first_system :: "ChatMessage list \<Rightarrow> string option" where
  "first_system msgs = map_option content (find (\<lambda>m. role m = System) msgs)"

text \<open>
  Modelled from the spec: the Request Builder of section 4.2 (bedrock-wrapper.js is
  missing). The token limit goes under the descriptor's \<open>tokenLimitParamName\<close>, clamped
  to \<open>min(requested, maxSupportedResponseTokens)\<close>.
\<close>

definition requestBuilder :: "ModelDescriptor \<Rightarrow> ChatMessage list \<Rightarrow> GenerationParams \<Rightarrow> RequestBody" where
  "requestBuilder d msgs p = \<lparr>
     payload = (case convention d of
        Structured separate \<Rightarrow>
          (if separate then MessageList (without_first_system msgs) (first_system msgs)
           else MessageList msgs None)
      | Flattened t \<Rightarrow> PromptString (flattenPrompt t msgs)),
     tokenLimitParam = (tokenLimitParamName d, min (maxTokens p) (maxSupportedResponseTokens d)),
     temperatureParam = genTemperature p,
     topPParam = topP p,
     stopSequence = (case convention d of
        Structured separate \<Rightarrow> None
      | Flattened t \<Rightarrow> Some (endOfMessageMarker t)),
     mergedFields = specialRequestFields d\<rparr>"

text \<open>
  Modelled from the spec: the error kinds of section 7 that \<open>buildRequest\<close> returns
  (bedrock-wrapper.js is missing).
\<close>

datatype build_error = RegistryNotFound | ValidationError

text \<open>
  Modelled from the spec: \<open>resolve\<close> of section 4.1 (bedrock-wrapper.js is missing):
  exact, case-sensitive lookup by name.
\<close>

definition resolve :: "ModelDescriptor list \<Rightarrow> string \<Rightarrow> ModelDescriptor option" where
  "resolve reg n = find (\<lambda>d. name d = n) reg"

text \<open>
  Modelled from the spec: \<open>buildRequest\<close> of section 6 (bedrock-wrapper.js is missing):
  an unknown name and an empty message sequence are errors, and no body is built for
  them; otherwise the body is the one of the Request Builder.
\<close>

definition buildRequest :: "ModelDescriptor list \<Rightarrow> ChatMessage list \<Rightarrow> string \<Rightarrow> GenerationParams \<Rightarrow> build_error + RequestBody" where
  "buildRequest reg msgs modelName p =
     (case resolve reg modelName of
        None \<Rightarrow> Inl RegistryNotFound
      | Some d \<Rightarrow> if msgs = [] then Inl ValidationError else Inr (requestBuilder d msgs p))"

subsection \<open>Response path extractor\<close>

text \<open>
  Modelled from the spec: the kinds of \<open>ExtractError\<close> of section 4.3 (the extractor of
  bedrock-wrapper.js is missing).
\<close>

datatype ExtractError = PathNotFound | IndexOutOfRange | TypeMismatch

text \<open>
  Modelled from the spec: \<open>extract\<close> of section 4.3 (the extractor of
  bedrock-wrapper.js is missing). A field step needs an object and an index step a
  sequence; at the end of the path the value must be a string.
\<close>

fun extract_path :: "path \<Rightarrow> json \<Rightarrow> ExtractError + string" where
  "extract_path [] (JStr s) = Inr s"
| "extract_path [] v = Inl TypeMismatch"
| "extract_path (FieldStep k # p) (JObj kvs) =
     (case field kvs k of None \<Rightarrow> Inl PathNotFound | Some v \<Rightarrow> extract_path p v)"
| "extract_path (FieldStep k # p) v = Inl TypeMismatch"
| "extract_path (IndexStep i # p) (JArr vs) =
     (if i < length vs then extract_path p (vs ! i) else Inl IndexOutOfRange)"
| "extract_path (IndexStep i # p) v = Inl TypeMismatch"

subsection \<open>Streaming decoder\<close>

text \<open>
  Modelled from the spec: the state machine of section 4.4 (the decoder of
  bedrock-wrapper.js is missing): \<open>Open\<close>, then \<open>Emitting\<close> once a chunk went out,
  \<open>Closed\<close> at the end of the stream. An event on which extraction succeeds emits one
  chunk; an event on which it fails is skipped and changes nothing.
\<close>

datatype decoder_phase = Open | Emitting | Closed

record decoder =
  phase :: decoder_phase
  emitted :: "string list"

text \<open>
  Modelled from the spec: the decoder before the first event (section 4.4; the decoder
  is missing): \<open>Open\<close>, nothing emitted.
\<close>

definition decoder_start :: decoder where
  "decoder_start = \<lparr>phase = Open, emitted = []\<rparr>"

text \<open>
  Modelled from the spec: the step of section 4.4 for one raw event (the decoder is
  missing): extraction along the path; on success one chunk is emitted, on an
  \<open>ExtractError\<close> the event is skipped.
\<close>

definition decode_event :: "path \<Rightarrow> decoder \<Rightarrow> json \<Rightarrow> decoder" where
  "decode_event p st ev =
     (case extract_path p ev of
        Inr chunk \<Rightarrow> st\<lparr>phase := Emitting, emitted := emitted st @ [chunk]\<rparr>
      | Inl err \<Rightarrow> st)"

text \<open>
  Modelled from the spec: the decoder over a whole event sequence (section 4.4; the
  decoder is missing): event by event, then \<open>Closed\<close> at the end of the stream.
\<close>

definition decoder_run :: "path \<Rightarrow> json list \<Rightarrow> decoder" where
  "decoder_run p evs = (foldl (decode_event p) decoder_start evs)\<lparr>phase := Closed\<rparr>"

text \<open>
  Modelled from the spec: \<open>decodeStream\<close> of section 6 (the decoder is missing): the
  chunks that the decoder emits along the descriptor's \<open>streamChunkPath\<close>, in order.
\<close>

definition decodeStream :: "ModelDescriptor \<Rightarrow> json list \<Rightarrow> string list" where
  "decodeStream d evs = emitted (decoder_run (streamChunkPath d) evs)"

subsection \<open>The flattened-prompt scenario of the specification\<close>

text \<open>
  Modelled from the spec: the descriptor, the messages and the events of the scenarios
  in section 8: flattened-prompt mode, begin-of-sequence marker \<open><BOS>\<close>, role markers
  \<open><|role|>\<close> and \<open><|/role|>\<close>, a system message and a user message, and three
  streaming events. The fields that the scenarios leave open are those of a Llama entry
  of the registry.
\<close>

definition scenario_markers :: role_markers where
  "scenario_markers = \<lparr>messagePrefix = [], messageSuffix = [],
     rolePrefix = ''<|role|>'', roleSuffix = ''<|/role|>''\<rparr>"

definition scenario_template :: PromptTemplate where
  "scenario_template = \<lparr>beginOfSequenceMarker = ''<BOS>'',
     systemMarkers = scenario_markers, userMarkers = scenario_markers,
     assistantMarkers = scenario_markers,
     endOfMessageMarker = ''<|eot_id|>'', displayRoleNames = True\<rparr>"

definition scenario_descriptor :: ModelDescriptor where
  "scenario_descriptor = \<lparr>name = ''Llama-3-2-1b'',
     backendId = ''us.meta.llama3-2-1b-instruct-v1:0'',
     convention = Flattened scenario_template,
     tokenLimitParamName = ''max_gen_len'',
     maxSupportedResponseTokens = 2048,
     streamChunkPath = [FieldStep ''generation''],
     fullResponsePath = [FieldStep ''generation''],
     specialRequestFields = []\<rparr>"

definition scenario_messages :: "ChatMessage list" where
  "scenario_messages = [\<lparr>role = System, content = ''Be terse''\<rparr>, \<lparr>role = User, content = ''Hi''\<rparr>]"

definition scenario_events :: "json list" where
  "scenario_events = [JObj [(''generation'', JStr ''Hel'')], JObj [(''generation'', JStr ''lo'')],
     JObj [(''meta'', JStr ''done'')]]"

section \<open>Auxiliary facts\<close>

lemma flatten_loop_rest:
  "flatten_loop t False prompt ms = prompt @ concat (map (emit_message t) ms)"
  by (induction ms arbitrary: prompt) simp_all

lemma flattenPrompt_nonempty:
  "flattenPrompt t (m # ms) = beginOfSequenceMarker t @ concat (map (emit_message t) (m # ms))"
  by (simp add: flattenPrompt_def flatten_loop_rest)

lemma emitted_decode_event:
  "emitted (decode_event p st ev) =
     emitted st @ (case extract_path p ev of Inr chunk \<Rightarrow> [chunk] | Inl err \<Rightarrow> [])"
  by (simp add: decode_event_def split: sum.split)

lemma emitted_foldl_decode_event:
  "emitted (foldl (decode_event p) st evs) =
     emitted st @ concat (map (\<lambda>ev. case extract_path p ev of Inr chunk \<Rightarrow> [chunk] | Inl err \<Rightarrow> []) evs)"
  by (induction evs arbitrary: st) (simp_all add: emitted_decode_event)

subsection \<open>The registry\<close>

lemma modelNames_eq:
  "modelNames = [Some (JStr ''Claude-3-7-Sonnet''), Some (JStr ''Claude-3-5-Sonnet-v2''),
     Some (JStr ''Claude-3-5-Sonnet''), Some (JStr ''Claude-3-Haiku''),
     Some (JStr ''Claude-3-5-Haiku''), Some (JStr ''Llama-3-2-1b''), Some (JStr ''Llama-3-2-3b''),
     Some (JStr ''Llama-3-2-11b''), Some (JStr ''Llama-3-2-90b''), Some (JStr ''Llama-3-1-8b''),
     Some (JStr ''Llama-3-1-70b''), Some (JStr ''Llama-3-1-405b''), Some (JStr ''Llama-3-8b''),
     Some (JStr ''Llama-3-70b''), Some (JStr ''Mistral-7b''), Some (JStr ''Mixtral-8x7b''),
     Some (JStr ''Mistral-Large'')]"
  by (simp add: modelNames_def bedrock_models_def)

subsection \<open>The response object once the head is stored\<close>

lemma res_write_sent:
  "headersSent r \<Longrightarrow> res_write w r = r\<lparr>headFlushed := True, bodyWrites := bodyWrites r @ [w]\<rparr>"
  by (simp add: res_write_def flush_head_def store_head_def)

lemma res_end_sent: "headersSent r \<Longrightarrow> res_end r = r\<lparr>headFlushed := True, finished := True\<rparr>"
  by (simp add: res_end_def flush_head_def store_head_def)

lemma res_json_sent: "headersSent r \<Longrightarrow> res_json j r = Inl ERR_HTTP_HEADERS_SENT"
  by (simp add: res_json_def)

lemma writeHead_fresh: "res_writeHead 200 sse_headers fresh_response = Inr sse_response"
  by (simp add: res_writeHead_def fresh_response_def store_head_def sse_headers_def
      put_header_def sse_response_def)

lemma sse_response_fields:
  "headersSent sse_response" "bodyWrites sse_response = []" "statusLine sse_response = Some 200"
  "statusCode sse_response = 200" "\<not> finished sse_response" "\<not> headFlushed sse_response"
  "headerFields sse_response = sse_headers"
  by (simp_all add: sse_response_def)

subsection \<open>The timer callback\<close>


lemma timer_callback_sent:
  "headersSent (res s) \<Longrightarrow>
   timer_callback s = s\<lparr>res := (res s)\<lparr>statusCode := 504\<rparr>, timerArmed := False,
     uncaught := Some ERR_HTTP_HEADERS_SENT\<rparr>"
  by (simp add: timer_callback_def status_json_def on_res_def res_json_sent res_status_def)

lemma await_result_sent:
  "headersSent (res s) \<Longrightarrow>
   await_result fires j s =
     (if timerArmed s \<and> fires = Some j
      then s\<lparr>res := (res s)\<lparr>statusCode := 504\<rparr>, timerArmed := False,
             uncaught := Some ERR_HTTP_HEADERS_SENT\<rparr>
      else s)"
  by (simp add: await_result_def timer_callback_sent)

lemma await_result_sent_body:
  "headersSent (res s) \<Longrightarrow>
   bodyWrites (res (await_result fires j s)) = bodyWrites (res s)
   \<and> headersSent (res (await_result fires j s))"
  by (simp add: await_result_sent)

lemma timer_callback_frame:
  "wrapperCalls (timer_callback s) = wrapperCalls s" "registry (timer_callback s) = registry s"
  by (simp_all add: timer_callback_def status_json_def on_res_def split: sum.split)

lemma await_result_frame:
  "wrapperCalls (await_result fires j s) = wrapperCalls s"
  "registry (await_result fires j s) = registry s"
  by (simp_all add: await_result_def timer_callback_frame)

subsection \<open>The loops\<close>

lemma unnamed_collect_concat: "unnamed_collect completeResponse ds = completeResponse @ concat ds"
  by (induction ds arbitrary: completeResponse) simp_all



lemma unnamed_stream_chunks_closed:
  "headersSent (res s) \<Longrightarrow>
   unnamed_stream_chunks cs (completeResponse, s) =
     (completeResponse @ concat cs,
      s\<lparr>res := (res s)\<lparr>headFlushed := headFlushed (res s) \<or> cs \<noteq> [],
                         bodyWrites := bodyWrites (res s) @ map (\<lambda>c. SseData (delta_frame c)) cs\<rparr>\<rparr>)"
proof (induction cs arbitrary: s completeResponse)
  case Nil
  then show ?case by simp
next
  case (Cons c cs)
  let ?s = "s\<lparr>res := res_write (SseData (delta_frame c)) (res s)\<rparr>"
  have sent: "headersSent (res ?s)"
    using Cons.prems by (simp add: res_write_sent)
  have "unnamed_stream_chunks (c # cs) (completeResponse, s)
      = unnamed_stream_chunks cs (completeResponse @ c, ?s)"
    by simp
  also have "\<dots> = ((completeResponse @ c) @ concat cs,
      ?s\<lparr>res := (res ?s)\<lparr>headFlushed := headFlushed (res ?s) \<or> cs \<noteq> [],
                  bodyWrites := bodyWrites (res ?s) @ map (\<lambda>c. SseData (delta_frame c)) cs\<rparr>\<rparr>)"
    by (rule Cons.IH [OF sent])
  also have "\<dots> = (completeResponse @ concat (c # cs),
      s\<lparr>res := (res s)\<lparr>headFlushed := headFlushed (res s) \<or> c # cs \<noteq> [],
                  bodyWrites := bodyWrites (res s) @ map (\<lambda>c. SseData (delta_frame c)) (c # cs)\<rparr>\<rparr>)"
    using Cons.prems by (simp add: res_write_sent)
  finally show ?case .
qed

lemma first_choice_streamResponse:
  "first_choice (streamResponse t1 t2 m c) ''delta'' = Some (JStr c)"
  by (simp add: streamResponse_def first_choice_def)

lemma delta_content_chunk_frames:
  "map delta_content (chunk_frames now m t cs) = map (\<lambda>c. Some (JStr c)) cs"
  by (induction cs arbitrary: t) (simp_all add: first_choice_streamResponse)

lemma length_chunk_frames: "length (chunk_frames now m t cs) = length cs"
  by (induction cs arbitrary: t) simp_all

lemma first_choice_delta_frame: "first_choice (delta_frame c) ''delta'' = Some (JStr c)"
  by (simp add: delta_frame_def first_choice_def)



subsection \<open>What the loops of server.js leave alone\<close>

lemma stream_chunks_wrapperCalls:
  "wrapperCalls (stream_chunks fires now m j cs s) = wrapperCalls s"
  by (induction cs arbitrary: j s) (simp_all add: Let_def await_result_frame)

lemma stream_chunks_registry:
  "registry (stream_chunks fires now m j cs s) = registry s"
  by (induction cs arbitrary: j s) (simp_all add: Let_def await_result_frame)

lemma collect_chunks_wrapperCalls:
  "wrapperCalls (snd (collect_chunks fires j ds (completeResponse, s))) = wrapperCalls s"
  by (induction ds arbitrary: j completeResponse s) (simp_all add: Let_def await_result_frame)

lemma collect_chunks_registry:
  "registry (snd (collect_chunks fires j ds (completeResponse, s))) = registry s"
  by (induction ds arbitrary: j completeResponse s) (simp_all add: Let_def await_result_frame)

lemma on_res_frame:
  "wrapperCalls (snd (on_res f s)) = wrapperCalls s" "registry (snd (on_res f s)) = registry s"
  by (simp_all add: on_res_def split: sum.split)

lemma status_json_frame:
  "wrapperCalls (snd (status_json code j s)) = wrapperCalls s"
  "registry (snd (status_json code j s)) = registry s"
  by (simp_all add: status_json_def on_res_frame)


subsection \<open>The streaming loop of server.js, whenever the timer runs\<close>

lemma stream_chunks_delivered:
  "headersSent (res s) \<Longrightarrow> timerArmed s \<Longrightarrow> uncaught s = None \<Longrightarrow>
   (\<forall>j'. fires = Some j' \<longrightarrow> j \<le> j') \<Longrightarrow>
   bodyWrites (res (stream_chunks fires now m j cs s)) =
     bodyWrites (res s) @ chunk_frames now m (ticks s)
       (case fires of None \<Rightarrow> cs | Some j' \<Rightarrow> take (j' - j) cs)
   \<and> headersSent (res (stream_chunks fires now m j cs s))"
proof (induction cs arbitrary: j s)
  case Nil
  then show ?case by (simp split: option.split)
next
  case (Cons c cs)
  show ?case
  proof (cases "fires = Some j")
    case True
    with Cons.prems show ?thesis
      by (simp add: await_result_sent)
  next
    case False
    let ?s = "s\<lparr>res := res_write (SseData (streamResponse (now (ticks s)) (now (ticks s + 1)) m c)) (res s),
                ticks := ticks s + 2\<rparr>"
    from False have wait: "await_result fires j s = s"
      by (simp add: await_result_def)
    have later: "\<forall>j'. fires = Some j' \<longrightarrow> Suc j \<le> j'"
      using Cons.prems(4) False by (auto simp: le_less Suc_le_eq)
    have sent: "headersSent (res ?s)" and armed: "timerArmed ?s" and alive: "uncaught ?s = None"
      using Cons.prems by (simp_all add: res_write_sent)
    have step: "stream_chunks fires now m j (c # cs) s = stream_chunks fires now m (Suc j) cs ?s"
      using Cons.prems by (simp add: wait)
    have frames: "chunk_frames now m (ticks s) (case fires of None \<Rightarrow> c # cs | Some j' \<Rightarrow> take (j' - j) (c # cs))
        = SseData (streamResponse (now (ticks s)) (now (ticks s + 1)) m c)
          # chunk_frames now m (ticks s + 2) (case fires of None \<Rightarrow> cs | Some j' \<Rightarrow> take (j' - Suc j) cs)"
    proof (cases fires)
      case None
      then show ?thesis by simp
    next
      case (Some j')
      with later have "j' - j = Suc (j' - Suc j)"
        by (simp add: Suc_diff_le Suc_le_eq)
      with Some show ?thesis by simp
    qed
    from Cons.IH [OF sent armed alive later] show ?thesis
      unfolding step frames using Cons.prems by (simp add: res_write_sent)
  qed
qed

subsection \<open>The branches of server.js on a fresh response\<close>

lemma try_block_accepted:
  "accepted extractAWSCreds req c \<Longrightarrow>
   try_block fires extractAWSCreds bedrockWrapper now req s =
     (if p_stream (bedrockParams req)
      then stream_branch fires bedrockWrapper now (awsCreds c) (bedrockParams req) (s\<lparr>timerArmed := True\<rparr>)
      else nonstream_branch fires bedrockWrapper now (awsCreds c) (bedrockParams req) (s\<lparr>timerArmed := True\<rparr>))"
  by (simp add: try_block_def accepted_def Let_def)




lemma stream_branch_frame:
  assumes "res s = fresh_response"
  shows "wrapperCalls (snd (stream_branch fires bedrockWrapper now creds p s))
           = wrapperCalls s @ [(creds, p)]"
    and "registry (snd (stream_branch fires bedrockWrapper now creds p s))
           = snd (bedrockWrapper creds p (registry s))"
  by (simp_all add: stream_branch_def assms writeHead_fresh Let_def await_result_frame
      stream_chunks_wrapperCalls stream_chunks_registry split: option.split)

lemma nonstream_branch_frame:
  "wrapperCalls (snd (nonstream_branch fires bedrockWrapper now creds p s))
     = wrapperCalls s @ [(creds, p)]"
  "registry (snd (nonstream_branch fires bedrockWrapper now creds p s))
     = snd (bedrockWrapper creds p (registry s))"
  by (simp_all add: nonstream_branch_def Let_def await_result_frame collect_chunks_wrapperCalls
      collect_chunks_registry on_res_frame split: option.split sum.split)

lemma chat_completions_frame:
  assumes "accepted extractAWSCreds req c"
  shows "wrapperCalls (snd (chat_completions fires extractAWSCreds bedrockWrapper now req s))
           = wrapperCalls s @ [(awsCreds c, bedrockParams req)]"
    and "registry (snd (chat_completions fires extractAWSCreds bedrockWrapper now req s))
           = snd (bedrockWrapper (awsCreds c) (bedrockParams req) (registry s))"
proof -
  let ?s = "s\<lparr>res := fresh_response, timerArmed := True\<rparr>"
  have fresh: "res ?s = fresh_response"
    by simp
  obtain e s' where run:
    "try_block fires extractAWSCreds bedrockWrapper now req (s\<lparr>res := fresh_response\<rparr>) = (e, s')"
    by (cases "try_block fires extractAWSCreds bedrockWrapper now req (s\<lparr>res := fresh_response\<rparr>)")
  have s': "wrapperCalls s' = wrapperCalls s @ [(awsCreds c, bedrockParams req)]
      \<and> registry s' = snd (bedrockWrapper (awsCreds c) (bedrockParams req) (registry s))"
    using run stream_branch_frame [OF fresh, of fires bedrockWrapper now "awsCreds c" "bedrockParams req"]
      nonstream_branch_frame [of fires bedrockWrapper now "awsCreds c" "bedrockParams req" ?s]
    by (simp add: try_block_accepted [OF assms] split: if_splits)
  show "wrapperCalls (snd (chat_completions fires extractAWSCreds bedrockWrapper now req s))
           = wrapperCalls s @ [(awsCreds c, bedrockParams req)]"
    using s' by (cases e) (simp_all add: chat_completions_def run catch_block_def status_json_frame)
  show "registry (snd (chat_completions fires extractAWSCreds bedrockWrapper now req s))
           = snd (bedrockWrapper (awsCreds c) (bedrockParams req) (registry s))"
    using s' by (cases e) (simp_all add: chat_completions_def run catch_block_def status_json_frame)
qed


lemma stream_branch_delivered:
  assumes "res s = fresh_response" and "timerArmed s" and "uncaught s = None"
    and "thrown (fst (bedrockWrapper creds p (registry s))) = Some e"
  shows "bodyWrites (res (snd (stream_branch fires bedrockWrapper now creds p s)))
           = chunk_frames now (p_model p) (ticks s)
               (delivered fires (yielded (fst (bedrockWrapper creds p (registry s)))))
       \<and> headersSent (res (snd (stream_branch fires bedrockWrapper now creds p s)))"
proof -
  let ?cs = "yielded (fst (bedrockWrapper creds p (registry s)))"
  let ?s1 = "s\<lparr>res := sse_response, wrapperCalls := wrapperCalls s @ [(creds, p)],
               registry := snd (bedrockWrapper creds p (registry s))\<rparr>"
  let ?s2 = "stream_chunks fires now (p_model p) 0 ?cs ?s1"
  have sent: "headersSent (res ?s1)" and armed: "timerArmed ?s1" and alive: "uncaught ?s1 = None"
    by (simp_all add: sse_response_fields assms(2,3))
  have "\<forall>j'. fires = Some j' \<longrightarrow> 0 \<le> j'"
    by simp
  from stream_chunks_delivered [OF sent armed alive this, of now "p_model p" ?cs]
  have loop: "bodyWrites (res ?s2) = chunk_frames now (p_model p) (ticks s) (delivered fires ?cs)"
    and sent2: "headersSent (res ?s2)"
    by (auto simp: sse_response_fields delivered_def split: option.splits)
  have branch: "snd (stream_branch fires bedrockWrapper now creds p s) =
      (if uncaught ?s2 \<noteq> None then ?s2 else await_result fires (length ?cs) ?s2)"
    by (simp add: stream_branch_def assms(1,4) writeHead_fresh Let_def)
  note wait = await_result_sent_body [OF sent2, of fires "length ?cs"]
  show ?thesis
    unfolding branch using loop sent2 wait by (cases "uncaught ?s2") simp_all
qed

subsection \<open>The unnamed server once the head is stored\<close>

lemma unnamed_accepted_respond:
  "unnamed_accepted extractAWSCreds req c \<Longrightarrow>
   unnamed_chat_completions extractAWSCreds bedrockWrapper req s =
     unnamed_respond bedrockWrapper (awsCreds c) (unnamed_params req) (s\<lparr>res := fresh_response\<rparr>)"
  by (simp add: unnamed_chat_completions_def unnamed_accepted_def Let_def)

lemma unnamed_head:
  "on_res (res_writeHead 200 sse_headers) (s\<lparr>res := fresh_response\<rparr>) = (None, s\<lparr>res := sse_response\<rparr>)"
  by (simp add: on_res_def writeHead_fresh)

lemma unnamed_try_sent:
  assumes "res s = sse_response"
  shows "unnamed_try bedrockWrapper creds p s =
     (if p_stream p then
        (case thrown (fst (bedrockWrapper creds p (registry s))) of
           Some e \<Rightarrow>
             (Some e, s\<lparr>res := sse_response\<lparr>
                   headFlushed := yielded (fst (bedrockWrapper creds p (registry s))) \<noteq> [],
                   bodyWrites := map (\<lambda>chunk. SseData (delta_frame chunk))
                     (yielded (fst (bedrockWrapper creds p (registry s))))\<rparr>,
                 wrapperCalls := wrapperCalls s @ [(creds, p)],
                 registry := snd (bedrockWrapper creds p (registry s))\<rparr>)
         | None \<Rightarrow>
             (None, s\<lparr>res := sse_response\<lparr>
                   headFlushed := True,
                   bodyWrites := map (\<lambda>chunk. SseData (delta_frame chunk))
                     (yielded (fst (bedrockWrapper creds p (registry s)))),
                   finished := True\<rparr>,
                 wrapperCalls := wrapperCalls s @ [(creds, p)],
                 registry := snd (bedrockWrapper creds p (registry s))\<rparr>))
      else
        (case thrown (fst (bedrockWrapper creds p (registry s))) of
           Some e \<Rightarrow> (Some e, s\<lparr>wrapperCalls := wrapperCalls s @ [(creds, p)],
                          registry := snd (bedrockWrapper creds p (registry s))\<rparr>)
         | None \<Rightarrow>
             (None, s\<lparr>res := sse_response\<lparr>
                   headFlushed := True,
                   bodyWrites := [JsonText (message_frame
                     (concat (yielded (fst (bedrockWrapper creds p (registry s))))))],
                   finished := True\<rparr>,
                 wrapperCalls := wrapperCalls s @ [(creds, p)],
                 registry := snd (bedrockWrapper creds p (registry s))\<rparr>)))"
proof -
  let ?s1 = "s\<lparr>wrapperCalls := wrapperCalls s @ [(creds, p)],
               registry := snd (bedrockWrapper creds p (registry s))\<rparr>"
  have sent: "headersSent (res ?s1)"
    by (simp add: assms sse_response_fields)
  note loop = unnamed_stream_chunks_closed [OF sent,
      of "yielded (fst (bedrockWrapper creds p (registry s)))" "[]"]
  show ?thesis
    by (simp add: unnamed_try_def Let_def loop assms unnamed_collect_concat res_write_sent
        res_end_sent sse_response_fields split: option.split)
qed

lemma unnamed_catch_sent:
  "headersSent (res s) \<Longrightarrow> unnamed_catch error s = (None, s)"
  by (simp add: unnamed_catch_def)




lemma delivered_quiet: "timer_quiet fires (length cs) \<Longrightarrow> delivered fires cs = cs"
  by (auto simp: timer_quiet_def delivered_def split: option.splits)

text \<open>
  The registry component is what the code of bedrock-wrapper.js makes of it: a wrapper
  that empties the array leaves the handler with the empty array.
\<close>

lemma clearing_wrapper_clears:
  "registry (snd (chat_completions None sample_extract clearing_wrapper sample_now
      (sample_request None) initial_state)) = []"
proof -
  have a: "accepted sample_extract (sample_request None) sample_credentials"
    by (simp add: accepted_def sample_extract_def sample_request_def bedrockParams_def)
  show ?thesis
    by (simp add: chat_completions_frame(2) [OF a] clearing_wrapper_def)
qed

section \<open>Properties of the registry\<close>

subsection \<open>Response paths of the entries\<close>

text \<open>
  Claim C5, as the registry has it. Every entry defines \<open>response_chunk_element\<close>, the
  path into a streaming event. \<open>response_nonchunk_element\<close>, the path into a full
  response, is defined by exactly the entries with \<open>messages_api\<close> true (the five
  Claude entries); the twelve flattened-prompt entries (Llama, Mistral, Mixtral), whose
  \<open>messages_api\<close> is false, have no such property.
\<close>

theorem registry_response_paths:
  "\<forall>e\<in>set bedrock_models.
     defines_path e ''response_chunk_element''
     \<and> (defines_path e ''response_nonchunk_element''
          \<longleftrightarrow> field e ''messages_api'' = Some (JBool True))
     \<and> (field e ''response_nonchunk_element'' = None
          \<longleftrightarrow> field e ''messages_api'' = Some (JBool False))"
  by code_simp

text \<open>The theorem at the first entry of the registry, Claude-3-7-Sonnet.\<close>

theorem registry_response_paths_witness:
  "hd bedrock_models \<in> set bedrock_models
   \<and> field (hd bedrock_models) ''modelName'' = Some (JStr ''Claude-3-7-Sonnet'')
   \<and> defines_path (hd bedrock_models) ''response_chunk_element''
   \<and> defines_path (hd bedrock_models) ''response_nonchunk_element''
   \<and> field (hd bedrock_models) ''messages_api'' = Some (JBool True)"
proof -
  have first: "hd bedrock_models \<in> set bedrock_models"
    by (simp add: bedrock_models_def)
  have name: "field (hd bedrock_models) ''modelName'' = Some (JStr ''Claude-3-7-Sonnet'')"
    by (simp add: bedrock_models_def)
  have api: "field (hd bedrock_models) ''messages_api'' = Some (JBool True)"
    by (simp add: bedrock_models_def)
  from bspec [OF registry_response_paths first] first name api show ?thesis
    by blast
qed

text \<open>
  The claim as stated fails at the sixth entry, Llama-3-2-1b: it is a registry entry,
  it defines the streaming path \<open>generation\<close>, and it has no
  \<open>response_nonchunk_element\<close>.
\<close>

theorem llama_entry_has_no_full_response_path:
  "field (bedrock_models ! 5) ''modelName'' = Some (JStr ''Llama-3-2-1b'')
   \<and> field (bedrock_models ! 5) ''response_chunk_element'' = Some (JStr ''generation'')
   \<and> field (bedrock_models ! 5) ''response_nonchunk_element'' = None
   \<and> \<not> defines_path (bedrock_models ! 5) ''response_nonchunk_element''"
  by (simp add: bedrock_models_def)

subsection \<open>Unique names, no mutation\<close>



subsection \<open>The default model of server.js\<close>

text \<open>
  Claim C9. For a request without a \<open>model\<close> field, the handler of server.js puts the
  name \<open>claude-3-5-sonnet\<close> into the parameters for the backend wrapper, and when the
  request passes the validation, the one wrapper call it makes carries that name,
  whenever the timer runs. No
  entry of the registry has this \<open>modelName\<close> under exact string comparison, so a
  search of the registry for it finds no entry; the entry with the closest name,
  \<open>Claude-3-5-Sonnet\<close>, is there.
\<close>

theorem default_model_not_registered:
  assumes "model (body req) = None"
  shows "p_model (bedrockParams req) = ''claude-3-5-sonnet''
   \<and> (accepted extractAWSCreds req c \<longrightarrow>
        map (\<lambda>call. p_model (snd call))
          (wrapperCalls (snd (chat_completions fires extractAWSCreds bedrockWrapper now req s)))
        = map (\<lambda>call. p_model (snd call)) (wrapperCalls s) @ [''claude-3-5-sonnet''])
   \<and> (\<forall>e\<in>set bedrock_models. field e ''modelName'' \<noteq> Some (JStr (p_model (bedrockParams req))))
   \<and> find (\<lambda>e. field e ''modelName'' = Some (JStr (p_model (bedrockParams req)))) bedrock_models = None
   \<and> (\<exists>e\<in>set bedrock_models. field e ''modelName'' = Some (JStr ''Claude-3-5-Sonnet''))"
proof -
  have default: "p_model (bedrockParams req) = ''claude-3-5-sonnet''"
    using assms by (simp add: bedrockParams_def)
  have absent: "Some (JStr ''claude-3-5-sonnet'') \<notin> set modelNames"
    unfolding modelNames_eq by simp
  have present: "Some (JStr ''Claude-3-5-Sonnet'') \<in> set modelNames"
    unfolding modelNames_eq by simp
  from absent have no_entry:
    "\<forall>e\<in>set bedrock_models. field e ''modelName'' \<noteq> Some (JStr ''claude-3-5-sonnet'')"
    by (force simp: modelNames_def)
  then have "find (\<lambda>e. field e ''modelName'' = Some (JStr ''claude-3-5-sonnet'')) bedrock_models = None"
    by (simp add: find_None_iff)
  moreover from present have
    "\<exists>e\<in>set bedrock_models. field e ''modelName'' = Some (JStr ''Claude-3-5-Sonnet'')"
    by (auto simp: modelNames_def)
  moreover have "map (\<lambda>call. p_model (snd call))
          (wrapperCalls (snd (chat_completions fires extractAWSCreds bedrockWrapper now req s)))
        = map (\<lambda>call. p_model (snd call)) (wrapperCalls s) @ [''claude-3-5-sonnet'']"
    if "accepted extractAWSCreds req c"
    by (simp add: chat_completions_frame(1) [OF that] default)
  ultimately show ?thesis
    using default no_entry by simp
qed

text \<open>The theorem at the sample request, which names no model.\<close>

theorem default_model_not_registered_witness:
  "model (body (sample_request None)) = None
   \<and> accepted sample_extract (sample_request None) sample_credentials
   \<and> p_model (bedrockParams (sample_request None)) = ''claude-3-5-sonnet''
   \<and> map (\<lambda>call. p_model (snd call))
        (wrapperCalls (snd (chat_completions None sample_extract sample_wrapper sample_now
           (sample_request None) initial_state)))
      = [''claude-3-5-sonnet'']
   \<and> find (\<lambda>e. field e ''modelName'' = Some (JStr ''claude-3-5-sonnet'')) bedrock_models = None"
proof -
  have a: "accepted sample_extract (sample_request None) sample_credentials"
    by (simp add: accepted_def sample_extract_def sample_request_def bedrockParams_def)
  have m: "model (body (sample_request None)) = None"
    by (simp add: sample_request_def)
  from default_model_not_registered [OF m, where extractAWSCreds = sample_extract
      and c = sample_credentials and bedrockWrapper = sample_wrapper and now = sample_now
      and s = initial_state and fires = None] a m
  show ?thesis
    by (elim conjE) (simp add: initial_state_def)
qed

section \<open>Properties of the HTTP layer\<close>

subsection \<open>Streamed frames and the non-streamed answer\<close>




subsection \<open>Empty or absent messages\<close>

text \<open>
  Claim C7. A chat-completion request whose \<open>messages\<close> array is empty or absent is
  answered with status 400 and the report that the messages array is empty, by both
  servers: server.js sends the JSON error object, the unnamed server the plain text.
  That is the whole body, the response is ended, and 400 is the status that the client
  receives. The handler completes normally
  (nothing is thrown), and the list of wrapper calls is the one it started with: the
  backend wrapper is never invoked.
\<close>

theorem empty_messages_rejected:
  assumes "messages (body req) = None \<or> messages (body req) = Some []"
  shows "fst (chat_completions fires extractAWSCreds bedrockWrapper now req s) = None
       \<and> statusLine (res (snd (chat_completions fires extractAWSCreds bedrockWrapper now req s))) = Some 400
       \<and> clientStatus (res (snd (chat_completions fires extractAWSCreds bedrockWrapper now req s))) = Some 400
       \<and> bodyWrites (res (snd (chat_completions fires extractAWSCreds bedrockWrapper now req s)))
           = [JsonText (error_json ''Messages array is empty'' ''invalid_request_error'' 400)]
       \<and> finished (res (snd (chat_completions fires extractAWSCreds bedrockWrapper now req s)))
       \<and> wrapperCalls (snd (chat_completions fires extractAWSCreds bedrockWrapper now req s)) = wrapperCalls s
       \<and> fst (unnamed_chat_completions extractAWSCreds bedrockWrapper req s) = None
       \<and> statusLine (res (snd (unnamed_chat_completions extractAWSCreds bedrockWrapper req s))) = Some 400
       \<and> clientStatus (res (snd (unnamed_chat_completions extractAWSCreds bedrockWrapper req s))) = Some 400
       \<and> bodyWrites (res (snd (unnamed_chat_completions extractAWSCreds bedrockWrapper req s)))
           = [PlainText ''Messages array is empty'']
       \<and> finished (res (snd (unnamed_chat_completions extractAWSCreds bedrockWrapper req s)))
       \<and> wrapperCalls (snd (unnamed_chat_completions extractAWSCreds bedrockWrapper req s)) = wrapperCalls s"
proof -
  have empty: "or_default (messages (body req)) [] = []"
    using assms by auto
  have named: "chat_completions fires extractAWSCreds bedrockWrapper now req s =
      status_json 400 (error_json ''Messages array is empty'' ''invalid_request_error'' 400)
        (s\<lparr>res := fresh_response\<rparr>)"
    by (simp add: chat_completions_def try_block_def bedrockParams_def empty status_json_def
        on_res_def res_json_def res_status_def fresh_response_def)
  have unnamed: "unnamed_chat_completions extractAWSCreds bedrockWrapper req s =
      status_send 400 ''Messages array is empty'' (s\<lparr>res := fresh_response\<rparr>)"
    by (simp add: unnamed_chat_completions_def unnamed_params_def empty)
  show ?thesis
    unfolding named unnamed
    by (simp add: status_json_def status_send_def on_res_def res_json_def res_send_def
        res_status_def res_write_def res_end_def flush_head_def store_head_def
        fresh_response_def clientStatus_def)
qed

text \<open>The theorem at a request with \<open>messages: []\<close>, from the initial state.\<close>

theorem empty_messages_rejected_witness:
  "messages (body (\<lparr>body = \<lparr>messages = Some [], model = None, max_tokens = None,
        temperature = None, top_p = None, stream = None\<rparr>,
        authorization = None, rawHeaders = []\<rparr>)) = Some []
   \<and> statusLine (res (snd (chat_completions None sample_extract sample_wrapper sample_now
       \<lparr>body = \<lparr>messages = Some [], model = None, max_tokens = None, temperature = None,
                top_p = None, stream = None\<rparr>,
        authorization = None, rawHeaders = []\<rparr> initial_state))) = Some 400
   \<and> wrapperCalls (snd (chat_completions None sample_extract sample_wrapper sample_now
       \<lparr>body = \<lparr>messages = Some [], model = None, max_tokens = None, temperature = None,
                top_p = None, stream = None\<rparr>,
        authorization = None, rawHeaders = []\<rparr> initial_state)) = []"
  using empty_messages_rejected [where req =
       "\<lparr>body = \<lparr>messages = Some [], model = None, max_tokens = None, temperature = None,
                top_p = None, stream = None\<rparr>,
        authorization = None, rawHeaders = []\<rparr>"
       and extractAWSCreds = sample_extract and bedrockWrapper = sample_wrapper
       and now = sample_now and s = initial_state and fires = None]
  by (simp add: initial_state_def)

subsection \<open>A stream that fails after some chunks\<close>

text \<open>
  Claim C8, as the handlers have it. Let a streaming request pass the validation and
  let the backend wrapper throw after it yielded the chunks \<open>cs\<close>. In the unnamed
  server the frames of \<open>cs\<close> are the body writes, in order, each with its chunk as
  delta content, and they are all the body writes: the \<open>catch\<close> block answers only
  while the headers are unsent, so nothing is written after the frames, the response is
  not ended, and the handler completes normally. In server.js the frames of the chunks that came before the
  callback of the 100-second timer ran stay the first body writes, in order, each with
  its chunk as delta content; they are the frames of all of \<open>cs\<close> when the timer does
  not run before the wrapper throws.
\<close>

theorem failed_stream_keeps_frames:
  "(unnamed_accepted extractAWSCreds ru c \<and> p_stream (unnamed_params ru)
      \<and> fst (bedrockWrapper (awsCreds c) (unnamed_params ru) (registry s))
          = \<lparr>yielded = cs, thrown = Some e\<rparr>
    \<longrightarrow> fst (unnamed_chat_completions extractAWSCreds bedrockWrapper ru s) = None
      \<and> bodyWrites (res (snd (unnamed_chat_completions extractAWSCreds bedrockWrapper ru s)))
          = map (\<lambda>chunk. SseData (delta_frame chunk)) cs
      \<and> map delta_content (bodyWrites (res (snd (unnamed_chat_completions extractAWSCreds bedrockWrapper ru s))))
          = map (\<lambda>chunk. Some (JStr chunk)) cs
      \<and> \<not> finished (res (snd (unnamed_chat_completions extractAWSCreds bedrockWrapper ru s))))
   \<and> (accepted extractAWSCreds rs c \<and> p_stream (bedrockParams rs)
      \<and> fst (bedrockWrapper (awsCreds c) (bedrockParams rs) (registry s))
          = \<lparr>yielded = cs, thrown = Some e\<rparr>
      \<and> uncaught s = None
    \<longrightarrow> take (length (delivered fires cs))
            (bodyWrites (res (snd (chat_completions fires extractAWSCreds bedrockWrapper now rs s))))
          = chunk_frames now (p_model (bedrockParams rs)) (ticks s) (delivered fires cs)
      \<and> map delta_content (chunk_frames now (p_model (bedrockParams rs)) (ticks s) (delivered fires cs))
          = map (\<lambda>chunk. Some (JStr chunk)) (delivered fires cs)
      \<and> (timer_quiet fires (length cs) \<longrightarrow> delivered fires cs = cs))"
proof (intro conjI impI)
  assume u: "unnamed_accepted extractAWSCreds ru c \<and> p_stream (unnamed_params ru)
      \<and> fst (bedrockWrapper (awsCreds c) (unnamed_params ru) (registry s))
          = \<lparr>yielded = cs, thrown = Some e\<rparr>"
  have sent: "res (s\<lparr>res := sse_response\<rparr>) = sse_response"
    by simp
  from u have acc: "unnamed_accepted extractAWSCreds ru c"
    and streamed: "p_stream (unnamed_params ru)"
    and wrapper: "fst (bedrockWrapper (awsCreds c) (unnamed_params ru) (registry s))
          = \<lparr>yielded = cs, thrown = Some e\<rparr>"
    by simp_all
  have run: "unnamed_chat_completions extractAWSCreds bedrockWrapper ru s =
      (None, s\<lparr>res := sse_response\<lparr>headFlushed := cs \<noteq> [],
                 bodyWrites := map (\<lambda>chunk. SseData (delta_frame chunk)) cs\<rparr>,
               wrapperCalls := wrapperCalls s @ [(awsCreds c, unnamed_params ru)],
               registry := snd (bedrockWrapper (awsCreds c) (unnamed_params ru) (registry s))\<rparr>)"
    by (simp add: unnamed_accepted_respond [OF acc] unnamed_respond_def unnamed_head
        unnamed_try_sent [OF sent] streamed wrapper unnamed_catch_sent sse_response_fields)
  show "fst (unnamed_chat_completions extractAWSCreds bedrockWrapper ru s) = None"
    by (simp add: run)
  show "bodyWrites (res (snd (unnamed_chat_completions extractAWSCreds bedrockWrapper ru s)))
          = map (\<lambda>chunk. SseData (delta_frame chunk)) cs"
    by (simp add: run)
  show "map delta_content (bodyWrites (res (snd (unnamed_chat_completions extractAWSCreds bedrockWrapper ru s))))
          = map (\<lambda>chunk. Some (JStr chunk)) cs"
    by (simp add: run first_choice_delta_frame)
  show "\<not> finished (res (snd (unnamed_chat_completions extractAWSCreds bedrockWrapper ru s)))"
    by (simp add: run sse_response_fields)
next
  assume a: "accepted extractAWSCreds rs c \<and> p_stream (bedrockParams rs)
      \<and> fst (bedrockWrapper (awsCreds c) (bedrockParams rs) (registry s))
          = \<lparr>yielded = cs, thrown = Some e\<rparr>
      \<and> uncaught s = None"
  let ?s = "s\<lparr>res := fresh_response, timerArmed := True\<rparr>"
  have fresh: "res ?s = fresh_response" and armed: "timerArmed ?s"
    by simp_all
  from a have acc: "accepted extractAWSCreds rs c"
    and streamed: "p_stream (bedrockParams rs)"
    and wrapper: "fst (bedrockWrapper (awsCreds c) (bedrockParams rs) (registry s))
          = \<lparr>yielded = cs, thrown = Some e\<rparr>"
    and alive: "uncaught ?s = None"
    by simp_all
  have failed: "thrown (fst (bedrockWrapper (awsCreds c) (bedrockParams rs) (registry ?s))) = Some e"
    by (simp add: wrapper)
  obtain err s' where branch:
    "stream_branch fires bedrockWrapper now (awsCreds c) (bedrockParams rs) ?s = (err, s')"
    by (cases "stream_branch fires bedrockWrapper now (awsCreds c) (bedrockParams rs) ?s")
  from stream_branch_delivered [where bedrockWrapper = bedrockWrapper and creds = "awsCreds c"
      and p = "bedrockParams rs" and fires = fires and now = now, OF fresh armed alive failed]
  have s': "bodyWrites (res s') = chunk_frames now (p_model (bedrockParams rs)) (ticks s) (delivered fires cs)"
    and sent: "headersSent (res s')"
    by (simp_all add: branch wrapper)
  have "bodyWrites (res (snd (chat_completions fires extractAWSCreds bedrockWrapper now rs s)))
      = chunk_frames now (p_model (bedrockParams rs)) (ticks s) (delivered fires cs)"
    using s' sent
    by (cases err)
      (simp_all add: chat_completions_def try_block_accepted [OF acc] streamed branch
        catch_block_def status_json_def on_res_def res_json_sent res_status_def)
  then show "take (length (delivered fires cs))
        (bodyWrites (res (snd (chat_completions fires extractAWSCreds bedrockWrapper now rs s))))
      = chunk_frames now (p_model (bedrockParams rs)) (ticks s) (delivered fires cs)"
    by (simp add: length_chunk_frames)
next
  show "map delta_content (chunk_frames now (p_model (bedrockParams rs)) (ticks s) (delivered fires cs))
          = map (\<lambda>chunk. Some (JStr chunk)) (delivered fires cs)"
    by (rule delta_content_chunk_frames)
next
  assume "timer_quiet fires (length cs)"
  then show "delivered fires cs = cs"
    by (rule delivered_quiet)
qed

text \<open>
  The theorem at the sample streaming request and the wrapper that yields \<open>Hel\<close> and
  then throws a \<open>ThrottlingException\<close>, with a timer that does not run before the
  handler is done.
\<close>

theorem failed_stream_keeps_frames_witness:
  "unnamed_accepted sample_extract (sample_request (Some True)) sample_credentials
   \<and> p_stream (unnamed_params (sample_request (Some True)))
   \<and> accepted sample_extract (sample_request (Some True)) sample_credentials
   \<and> p_stream (bedrockParams (sample_request (Some True)))
   \<and> uncaught initial_state = None
   \<and> timer_quiet None (length [''Hel''])
   \<and> bodyWrites (res (snd (unnamed_chat_completions sample_extract throttled_wrapper
        (sample_request (Some True)) initial_state))) = [SseData (delta_frame ''Hel'')]
   \<and> map delta_content (take 1 (bodyWrites (res (snd (chat_completions None sample_extract
        throttled_wrapper sample_now (sample_request (Some True)) initial_state)))))
      = [Some (JStr ''Hel'')]"
proof -
  have u: "unnamed_accepted sample_extract (sample_request (Some True)) sample_credentials"
    by (simp add: unnamed_accepted_def sample_extract_def sample_request_def unnamed_params_def
        unnamed_token_def sample_credentials_def)
  have us: "p_stream (unnamed_params (sample_request (Some True)))"
    by (simp add: sample_request_def unnamed_params_def)
  have a: "accepted sample_extract (sample_request (Some True)) sample_credentials"
    by (simp add: accepted_def sample_extract_def sample_request_def bedrockParams_def)
  have b: "p_stream (bedrockParams (sample_request (Some True)))"
    by (simp add: sample_request_def bedrockParams_def)
  have w: "fst (throttled_wrapper creds p models) = \<lparr>yielded = [''Hel''],
      thrown = Some (JsError ''ThrottlingException'' ''Too many requests'')\<rparr>" for creds p models
    by (simp add: throttled_wrapper_def)
  have l: "uncaught initial_state = None"
    by (simp add: initial_state_def)
  have q: "timer_quiet None (length [''Hel''])"
    by (simp add: timer_quiet_def)
  from failed_stream_keeps_frames [where extractAWSCreds = sample_extract
      and ru = "sample_request (Some True)" and rs = "sample_request (Some True)"
      and c = sample_credentials and bedrockWrapper = throttled_wrapper and cs = "[''Hel'']"
      and e = "JsError ''ThrottlingException'' ''Too many requests''" and s = initial_state
      and now = sample_now and fires = None] u us a b w l q
  show ?thesis
    by (elim conjE) (simp add: delivered_def)
qed

text \<open>
  The claim as stated fails in the unnamed server: after the chunk \<open>Hel\<close> the wrapper
  throws, and the handler completes with the one frame as the whole body, no event
  after it, and the response not ended.
\<close>

theorem failed_stream_not_reported:
  "fst (unnamed_chat_completions sample_extract throttled_wrapper
      (sample_request (Some True)) initial_state) = None
   \<and> bodyWrites (res (snd (unnamed_chat_completions sample_extract throttled_wrapper
      (sample_request (Some True)) initial_state))) = [SseData (delta_frame ''Hel'')]
   \<and> \<not> finished (res (snd (unnamed_chat_completions sample_extract throttled_wrapper
      (sample_request (Some True)) initial_state)))"
  by (simp add: unnamed_chat_completions_def unnamed_params_def sample_request_def
      sample_extract_def unnamed_token_def sample_credentials_def unnamed_respond_def
      on_res_def writeHead_fresh unnamed_try_def throttled_wrapper_def awsCreds_def
      initial_state_def res_write_sent sse_response_fields unnamed_catch_def Let_def)

subsection \<open>The unnamed server stores the 200 head before it calls the backend\<close>

text \<open>
  Claim C10, as the code has it. In the unnamed server, for every request that passes
  the validation, streaming or not: \<open>res.writeHead\<close> succeeds on the fresh response and
  leaves the status line 200 and the \<open>text/event-stream\<close> headers stored and
  \<open>headersSent\<close> true, with the list of wrapper calls as it was; the \<open>try\<close> block, which
  makes the one wrapper call, starts from that state. Whatever the wrapper does,
  \<open>headersSent\<close> holds in the state the \<open>try\<close> block leaves, the \<open>catch\<close> block changes
  nothing in that state for any error (its 429 and 500 answers are skipped), and the
  handler completes normally in that state with the stored status line 200. The client
  receives that status line with the first body write or the end of the response: it
  observes the status 200 when the wrapper ends without an error, or when the request
  is streamed and the wrapper yielded a chunk before it threw, and no status at all
  otherwise. It never observes another status than 200.
\<close>

theorem unnamed_status_always_200:
  assumes "unnamed_accepted extractAWSCreds req c"
  shows "on_res (res_writeHead 200 sse_headers) (s\<lparr>res := fresh_response\<rparr>) = (None, s\<lparr>res := sse_response\<rparr>)
    \<and> headersSent sse_response \<and> statusLine sse_response = Some 200
    \<and> map_of (headerFields sse_response) ''Content-Type'' = Some ''text/event-stream''
    \<and> wrapperCalls (s\<lparr>res := sse_response\<rparr>) = wrapperCalls s
    \<and> (let outcome = unnamed_try bedrockWrapper (awsCreds c) (unnamed_params req) (s\<lparr>res := sse_response\<rparr>);
           run = fst (bedrockWrapper (awsCreds c) (unnamed_params req) (registry s))
       in wrapperCalls (snd outcome) = wrapperCalls s @ [(awsCreds c, unnamed_params req)]
        \<and> headersSent (res (snd outcome))
        \<and> (\<forall>error. unnamed_catch error (snd outcome) = (None, snd outcome))
        \<and> unnamed_chat_completions extractAWSCreds bedrockWrapper req s = (None, snd outcome)
        \<and> statusLine (res (snd outcome)) = Some 200
        \<and> statusCode (res (snd outcome)) = 200
        \<and> clientStatus (res (snd outcome))
            = (if thrown run = None \<or> (p_stream (unnamed_params req) \<and> yielded run \<noteq> [])
               then Some 200 else None))"
proof -
  have sent: "res (s\<lparr>res := sse_response\<rparr>) = sse_response"
    by simp
  let ?run = "fst (bedrockWrapper (awsCreds c) (unnamed_params req) (registry s))"
  obtain err s2 where outcome:
    "unnamed_try bedrockWrapper (awsCreds c) (unnamed_params req) (s\<lparr>res := sse_response\<rparr>) = (err, s2)"
    by (cases "unnamed_try bedrockWrapper (awsCreds c) (unnamed_params req) (s\<lparr>res := sse_response\<rparr>)")
  have s2: "wrapperCalls s2 = wrapperCalls s @ [(awsCreds c, unnamed_params req)]
      \<and> headersSent (res s2) \<and> statusLine (res s2) = Some 200 \<and> statusCode (res s2) = 200"
    using outcome unfolding unnamed_try_sent [OF sent]
    by (auto simp: sse_response_fields split: if_splits option.splits)
  have observed: "clientStatus (res s2)
      = (if thrown ?run = None \<or> (p_stream (unnamed_params req) \<and> yielded ?run \<noteq> [])
         then Some 200 else None)"
  proof (cases "thrown ?run")
    case None
    with outcome show ?thesis
      by (auto simp: unnamed_try_sent [OF sent] clientStatus_def sse_response_fields
          split: if_splits)
  next
    case (Some e)
    with outcome show ?thesis
      by (auto simp: unnamed_try_sent [OF sent] clientStatus_def sse_response_fields
          split: if_splits)
  qed
  from s2 have quiet: "unnamed_catch error s2 = (None, s2)" for error
    by (simp add: unnamed_catch_sent)
  have "unnamed_chat_completions extractAWSCreds bedrockWrapper req s = (None, s2)"
    by (cases err)
      (simp_all add: unnamed_accepted_respond [OF assms] unnamed_respond_def unnamed_head
        outcome quiet)
  moreover have "map_of (headerFields sse_response) ''Content-Type'' = Some ''text/event-stream''"
    by (simp add: sse_response_def sse_headers_def)
  ultimately show ?thesis
    using s2 quiet observed by (simp add: unnamed_head outcome sse_response_fields(1-5) Let_def)
qed

text \<open>
  The theorem at the sample request, streamed, with the wrapper that yields \<open>Hel\<close> and
  then throws a \<open>ThrottlingException\<close>: the client has received the status 200 with the
  frame of \<open>Hel\<close>, and the 429 answer of the \<open>catch\<close> block is skipped.
\<close>

theorem unnamed_status_always_200_witness:
  "unnamed_accepted sample_extract (sample_request (Some True)) sample_credentials
   \<and> clientStatus (res (snd (unnamed_chat_completions sample_extract throttled_wrapper
        (sample_request (Some True)) initial_state))) = Some 200
   \<and> headersSent (res (snd (unnamed_chat_completions sample_extract throttled_wrapper
        (sample_request (Some True)) initial_state)))"
proof -
  have u: "unnamed_accepted sample_extract (sample_request (Some True)) sample_credentials"
    by (simp add: unnamed_accepted_def sample_extract_def sample_request_def unnamed_params_def
        unnamed_token_def sample_credentials_def)
  have us: "p_stream (unnamed_params (sample_request (Some True)))"
    by (simp add: sample_request_def unnamed_params_def)
  from unnamed_status_always_200 [OF u, where s = initial_state
      and bedrockWrapper = throttled_wrapper] u us
  show ?thesis
    by (simp add: Let_def throttled_wrapper_def)
qed

text \<open>
  The claim as stated fails where nothing is written. The sample request with
  \<open>stream: false\<close> is accepted and the wrapper throws a \<open>ThrottlingException\<close> after its
  first chunk: the head is stored, but the handler writes no body and does not end the
  response, and its \<open>catch\<close> block is silent, so the stored head is never put on the
  connection and the client observes no status, neither 200 nor another.
\<close>

theorem unnamed_failure_sends_no_status:
  "unnamed_accepted sample_extract (sample_request (Some False)) sample_credentials
   \<and> fst (unnamed_chat_completions sample_extract throttled_wrapper
        (sample_request (Some False)) initial_state) = None
   \<and> headersSent (res (snd (unnamed_chat_completions sample_extract throttled_wrapper
        (sample_request (Some False)) initial_state)))
   \<and> clientStatus (res (snd (unnamed_chat_completions sample_extract throttled_wrapper
        (sample_request (Some False)) initial_state))) = None
   \<and> bodyWrites (res (snd (unnamed_chat_completions sample_extract throttled_wrapper
        (sample_request (Some False)) initial_state))) = []
   \<and> \<not> finished (res (snd (unnamed_chat_completions sample_extract throttled_wrapper
        (sample_request (Some False)) initial_state)))"
proof -
  have u: "unnamed_accepted sample_extract (sample_request (Some False)) sample_credentials"
    by (simp add: unnamed_accepted_def sample_extract_def sample_request_def unnamed_params_def
        unnamed_token_def sample_credentials_def)
  have us: "\<not> p_stream (unnamed_params (sample_request (Some False)))"
    by (simp add: sample_request_def unnamed_params_def)
  have sent: "res (initial_state\<lparr>res := sse_response\<rparr>) = sse_response"
    by simp
  have run: "unnamed_chat_completions sample_extract throttled_wrapper
        (sample_request (Some False)) initial_state
      = (None, initial_state\<lparr>res := sse_response,
           wrapperCalls := wrapperCalls initial_state
             @ [(awsCreds sample_credentials, unnamed_params (sample_request (Some False)))],
           registry := registry initial_state\<rparr>)"
    by (simp add: unnamed_accepted_respond [OF u] unnamed_respond_def unnamed_head
        unnamed_try_sent [OF sent] us throttled_wrapper_def unnamed_catch_sent
        sse_response_fields)
  show ?thesis
    unfolding run by (simp add: u clientStatus_def sse_response_fields)
qed

section \<open>Properties of the model abstraction core\<close>

subsection \<open>Token-limit clamping\<close>

text \<open>
  Claim C1. For every descriptor, every message sequence and all generation
  parameters: when the requested \<open>maxTokens\<close> exceeds the descriptor's
  \<open>maxSupportedResponseTokens\<close>, the built body carries the descriptor's limit under the
  parameter named \<open>tokenLimitParamName\<close>; when it is at or below the limit, the
  requested number stands there unchanged. \<open>buildRequest\<close> returns this body for every
  name that resolves and every non-empty message sequence.
\<close>

theorem token_limit_clamped:
  "(maxSupportedResponseTokens d < maxTokens p \<longrightarrow>
      tokenLimitParam (requestBuilder d msgs p) = (tokenLimitParamName d, maxSupportedResponseTokens d))
   \<and> (maxTokens p \<le> maxSupportedResponseTokens d \<longrightarrow>
      tokenLimitParam (requestBuilder d msgs p) = (tokenLimitParamName d, maxTokens p))
   \<and> (resolve reg n = Some d \<and> msgs \<noteq> [] \<longrightarrow>
      buildRequest reg msgs n p = Inr (requestBuilder d msgs p))"
  by (simp add: requestBuilder_def buildRequest_def)

text \<open>
  Requests for 5000 tokens and for 800 tokens against the limit 2048 of the scenario
  descriptor.
\<close>

theorem token_limit_clamped_witness:
  "(2048::int) < 5000 \<and> (800::int) \<le> 2048
   \<and> resolve [scenario_descriptor] ''Llama-3-2-1b'' = Some scenario_descriptor
   \<and> scenario_messages \<noteq> []
   \<and> tokenLimitParam (requestBuilder scenario_descriptor scenario_messages
        \<lparr>maxTokens = 5000, genTemperature = 0.4, topP = 0.9, genStream = False\<rparr>)
      = (''max_gen_len'', 2048)
   \<and> tokenLimitParam (requestBuilder scenario_descriptor scenario_messages
        \<lparr>maxTokens = 800, genTemperature = 0.4, topP = 0.9, genStream = False\<rparr>)
      = (''max_gen_len'', 800)
   \<and> buildRequest [scenario_descriptor] scenario_messages ''Llama-3-2-1b''
        \<lparr>maxTokens = 5000, genTemperature = 0.4, topP = 0.9, genStream = False\<rparr>
      = Inr (requestBuilder scenario_descriptor scenario_messages
        \<lparr>maxTokens = 5000, genTemperature = 0.4, topP = 0.9, genStream = False\<rparr>)"
  using token_limit_clamped [of scenario_descriptor
      "\<lparr>maxTokens = 5000, genTemperature = 0.4, topP = 0.9, genStream = False\<rparr>"
      scenario_messages "[scenario_descriptor]" "''Llama-3-2-1b''"]
    token_limit_clamped [of scenario_descriptor
      "\<lparr>maxTokens = 800, genTemperature = 0.4, topP = 0.9, genStream = False\<rparr>"
      scenario_messages "[scenario_descriptor]" "''Llama-3-2-1b''"]
  by (simp add: scenario_descriptor_def scenario_messages_def resolve_def)

subsection \<open>The flattened prompt\<close>

text \<open>
  Claim C2. For every non-empty message sequence and every descriptor that does not use
  structured messages, the built prompt is the descriptor's begin-of-sequence marker,
  once, followed for each message in input order by its role label (the role's
  \<open>rolePrefix\<close>, the literal role name and \<open>roleSuffix\<close>, present exactly when
  \<open>displayRoleNames\<close> holds) and by the role's \<open>messagePrefix\<close>, the content and
  \<open>messageSuffix\<close>. The right-hand side has every content once, nothing before the
  first message but the marker, and nothing after the last message.
\<close>

theorem flattened_prompt_layout:
  assumes "msgs \<noteq> []" and "\<not> usesStructuredMessages d"
  shows "\<exists>t. convention d = Flattened t \<and>
     payload (requestBuilder d msgs p) = PromptString
       (beginOfSequenceMarker t @
        concat (map (\<lambda>m.
          (if displayRoleNames t
           then rolePrefix (markers_of t (role m)) @ role_name (role m) @ roleSuffix (markers_of t (role m))
           else [])
          @ messagePrefix (markers_of t (role m)) @ content m @ messageSuffix (markers_of t (role m)))
          msgs))"
proof -
  from assms(2) obtain t where t: "convention d = Flattened t"
    by (cases "convention d") (simp_all add: usesStructuredMessages_def)
  from assms(1) obtain m ms where msgs: "msgs = m # ms"
    by (cases msgs) simp_all
  have "payload (requestBuilder d msgs p) = PromptString (flattenPrompt t msgs)"
    by (simp add: requestBuilder_def t)
  also have "flattenPrompt t msgs = beginOfSequenceMarker t @ concat (map (emit_message t) msgs)"
    unfolding msgs by (rule flattenPrompt_nonempty)
  also have "map (emit_message t) msgs = map (\<lambda>m.
          (if displayRoleNames t
           then rolePrefix (markers_of t (role m)) @ role_name (role m) @ roleSuffix (markers_of t (role m))
           else [])
          @ messagePrefix (markers_of t (role m)) @ content m @ messageSuffix (markers_of t (role m)))
          msgs"
    by (simp add: emit_message_def)
  finally show ?thesis
    using t by blast
qed

text \<open>The scenario of the specification: a system message and a user message.\<close>

theorem flattened_prompt_layout_witness:
  "scenario_messages \<noteq> [] \<and> \<not> usesStructuredMessages scenario_descriptor
   \<and> payload (requestBuilder scenario_descriptor scenario_messages
        \<lparr>maxTokens = 800, genTemperature = 0.4, topP = 0.9, genStream = False\<rparr>)
      = PromptString ''<BOS><|role|>system<|/role|>Be terse<|role|>user<|/role|>Hi''"
  using flattened_prompt_layout [of scenario_messages scenario_descriptor
      "\<lparr>maxTokens = 800, genTemperature = 0.4, topP = 0.9, genStream = False\<rparr>"]
  by (simp add: scenario_descriptor_def scenario_messages_def scenario_template_def
      scenario_markers_def usesStructuredMessages_def)

subsection \<open>The streaming decoder\<close>

text \<open>
  Claim C3. For every sequence of raw events, the decoder yields exactly one chunk for
  each event on which extraction along the descriptor's \<open>streamChunkPath\<close> succeeds, in
  event order, and nothing for an event on which extraction fails; such an event does
  not fail the stream, which ends in the phase \<open>Closed\<close>. For the three events of the
  scenario and the path \<open>generation\<close> the yield is exactly \<open>Hel\<close>, \<open>lo\<close>.
\<close>

theorem decodeStream_skips_failed_events:
  "decodeStream d evs =
     concat (map (\<lambda>ev. case extract_path (streamChunkPath d) ev of
                          Inr chunk \<Rightarrow> [chunk] | Inl err \<Rightarrow> []) evs)
   \<and> phase (decoder_run (streamChunkPath d) evs) = Closed
   \<and> decodeStream (d\<lparr>streamChunkPath := [FieldStep ''generation'']\<rparr>)
        [JObj [(''generation'', JStr ''Hel'')], JObj [(''generation'', JStr ''lo'')],
         JObj [(''meta'', JStr ''done'')]]
      = [''Hel'', ''lo'']"
proof -
  have general: "decodeStream d' evs' =
     concat (map (\<lambda>ev. case extract_path (streamChunkPath d') ev of
                          Inr chunk \<Rightarrow> [chunk] | Inl err \<Rightarrow> []) evs')" for d' evs'
    by (simp add: decodeStream_def decoder_run_def emitted_foldl_decode_event decoder_start_def)
  have closed: "phase (decoder_run (streamChunkPath d) evs) = Closed"
    by (simp add: decoder_run_def)
  have scenario: "decodeStream (d\<lparr>streamChunkPath := [FieldStep ''generation'']\<rparr>)
        [JObj [(''generation'', JStr ''Hel'')], JObj [(''generation'', JStr ''lo'')],
         JObj [(''meta'', JStr ''done'')]]
      = [''Hel'', ''lo'']"
    unfolding general by simp
  from general closed scenario show ?thesis
    by blast
qed

text \<open>The theorem at the scenario descriptor and the scenario events.\<close>

theorem decodeStream_skips_failed_events_witness:
  "decodeStream scenario_descriptor scenario_events = [''Hel'', ''lo'']
   \<and> extract_path [FieldStep ''generation''] (JObj [(''meta'', JStr ''done'')]) = Inl PathNotFound"
  using decodeStream_skips_failed_events [of scenario_descriptor scenario_events]
  by (simp add: scenario_descriptor_def scenario_events_def)

end
